theory Spec2Isabelle
  imports Complex_Main "HOL-Library.Log_Nat"
begin

section \<open>JavaScript values\<close>

text \<open>
  Numbers. A JavaScript number is a binary64 value: a finite one, given here by the
  rational number it stands for, the negative zero, an infinity or \<open>NaN\<close>. \<open>Fin 0\<close>
  is the positive zero.
\<close>

datatype jsnum = Fin rat | NZero | PInf | NInf | NaN

text \<open>
  Property values are the primitives that a record read from JSON or from the form can
  hold, and \<open>undefined\<close> for what is absent.
\<close>

datatype jsval = Undefined | Null | Num jsnum | Str string

text \<open>
  An object has its own properties, in insertion order, and a prototype; \<open>None\<close> stands
  for \<open>Object.prototype\<close>, which has none of the property names this program reads.
\<close>

datatype jsobj = JSObj (own: "(string \<times> jsval) list") (proto: "jsobj option")

datatype exn = Error string | TypeError

text \<open>
  The parts of the runtime that the model takes as given: the rounding of the exact
  result of an arithmetic operation, other than zero, to binary64 (to a finite value, a
  zero on underflow or an infinity on overflow); the digits that \<open>Number::toString\<close>
  prints for a number that is not a safe integer; and the parsing of a string by
  \<open>ToNumber\<close>.
\<close>

record runtime =
  shortest_digits :: "rat \<Rightarrow> string"
  StringToNumber :: "string \<Rightarrow> jsnum"
  round64 :: "rat \<Rightarrow> jsnum"

subsection \<open>Arithmetic on numbers\<close>

text \<open>The value of a finite number, the sign of a number, and the zero and the infinity of a sign.\<close>

definition finite_value :: "jsnum \<Rightarrow> rat option" where
  "finite_value x = (case x of Fin q \<Rightarrow> Some q | NZero \<Rightarrow> Some 0 | _ \<Rightarrow> None)"

definition negative :: "jsnum \<Rightarrow> bool" where
  "negative x = (case x of Fin q \<Rightarrow> q < 0 | NZero \<Rightarrow> True | NInf \<Rightarrow> True | _ \<Rightarrow> False)"

definition zero_of :: "bool \<Rightarrow> jsnum" where
  "zero_of neg = (if neg then NZero else Fin 0)"

definition inf_of :: "bool \<Rightarrow> jsnum" where
  "inf_of neg = (if neg then NInf else PInf)"

text \<open>
  \<open>x - y\<close>: the exact difference, rounded. A difference of zero is the positive zero,
  but \<open>-0 - +0\<close> is the negative one; two infinities of the same sign give \<open>NaN\<close>.
\<close>

definition num_sub :: "runtime \<Rightarrow> jsnum \<Rightarrow> jsnum \<Rightarrow> jsnum" where
  "num_sub rt x y =
     (if x = NaN \<or> y = NaN then NaN
      else case (finite_value x, finite_value y) of
        (Some a, Some b) \<Rightarrow>
          if a - b \<noteq> 0 then round64 rt (a - b)
          else if x = NZero \<and> y = Fin 0 then NZero else Fin 0
      | (Some a, None) \<Rightarrow> inf_of (\<not> negative y)
      | (None, Some b) \<Rightarrow> x
      | (None, None) \<Rightarrow> if x = y then NaN else x)"

text \<open>
  \<open>x * y\<close>: the exact product, rounded; the sign of a zero or an infinity is the product
  of the signs, and an infinity times a zero is \<open>NaN\<close>.
\<close>

definition num_mul :: "runtime \<Rightarrow> jsnum \<Rightarrow> jsnum \<Rightarrow> jsnum" where
  "num_mul rt x y =
     (if x = NaN \<or> y = NaN then NaN
      else case (finite_value x, finite_value y) of
        (Some a, Some b) \<Rightarrow>
          if a * b \<noteq> 0 then round64 rt (a * b) else zero_of (negative x \<noteq> negative y)
      | (Some a, None) \<Rightarrow> if a = 0 then NaN else inf_of (negative x \<noteq> negative y)
      | (None, Some b) \<Rightarrow> if b = 0 then NaN else inf_of (negative x \<noteq> negative y)
      | (None, None) \<Rightarrow> inf_of (negative x \<noteq> negative y))"

text \<open>
  \<open>x / y\<close>: the exact quotient, rounded. A number other than zero over a zero is an
  infinity, a zero over a zero and an infinity over an infinity are \<open>NaN\<close>, a finite
  number over an infinity is a zero; the sign is the product of the signs.
\<close>

definition num_div :: "runtime \<Rightarrow> jsnum \<Rightarrow> jsnum \<Rightarrow> jsnum" where
  "num_div rt x y =
     (if x = NaN \<or> y = NaN then NaN
      else case (finite_value x, finite_value y) of
        (Some a, Some b) \<Rightarrow>
          if b = 0 then (if a = 0 then NaN else inf_of (negative x \<noteq> negative y))
          else if a = 0 then zero_of (negative x \<noteq> negative y)
          else round64 rt (a / b)
      | (Some a, None) \<Rightarrow> zero_of (negative x \<noteq> negative y)
      | (None, Some b) \<Rightarrow> inf_of (negative x \<noteq> negative y)
      | (None, None) \<Rightarrow> NaN)"

text \<open>\<open>x < y\<close>: false as soon as one side is \<open>NaN\<close>; the two zeros are equal.\<close>

definition num_less :: "jsnum \<Rightarrow> jsnum \<Rightarrow> bool" where
  "num_less x y =
     (x \<noteq> NaN \<and> y \<noteq> NaN \<and>
      (case (finite_value x, finite_value y) of
         (Some a, Some b) \<Rightarrow> a < b
       | (Some a, None) \<Rightarrow> y = PInf
       | (None, Some b) \<Rightarrow> x = NInf
       | (None, None) \<Rightarrow> x = NInf \<and> y = PInf))"

text \<open>
  \<open>Math.round\<close>: the closest integer, and of two equally close ones the one closer to
  plus infinity; the negative zero for a number from \<open>-0.5\<close> up to zero. The result
  is a binary64 value, so there is nothing to round.
\<close>

fun Math_round :: "jsnum \<Rightarrow> jsnum" where
  "Math_round (Fin q) = (if - (1 / 2) \<le> q \<and> q < 0 then NZero else Fin (of_int \<lfloor>q + 1 / 2\<rfloor>))"
| "Math_round x = x"

subsection \<open>Conversions\<close>

definition digit :: "nat \<Rightarrow> char" where
  "digit d = ''0123456789'' ! d"

fun decimal :: "nat \<Rightarrow> string" where
  "decimal n = (if n < 10 then [digit n] else decimal (n div 10) @ [digit (n mod 10)])"

declare decimal.simps [simp del]

text \<open>
  \<open>Number::toString\<close>. A safe integer prints as its decimal digits; the digits of any
  other finite number are the runtime's.
\<close>

definition Number_toString :: "runtime \<Rightarrow> jsnum \<Rightarrow> string" where
  "Number_toString rt x =
     (case x of
        NaN \<Rightarrow> ''NaN''
      | PInf \<Rightarrow> ''Infinity''
      | NInf \<Rightarrow> ''-Infinity''
      | NZero \<Rightarrow> ''0''
      | Fin q \<Rightarrow>
          if of_int \<lfloor>q\<rfloor> = q \<and> \<bar>q\<bar> \<le> 2 ^ 53
          then (if q < 0 then ''-'' else []) @ decimal (nat \<lfloor>\<bar>q\<bar>\<rfloor>)
          else shortest_digits rt q)"

text \<open>
  \<open>Number.prototype.toFixed(f)\<close>: below \<open>10^21\<close>, the integer nearest to
  \<open>x * 10^f\<close> (the larger of two), printed with a point before its last \<open>f\<close> digits.
  The negative zero is not less than zero, so it prints as the positive one.
\<close>

definition toFixed :: "runtime \<Rightarrow> jsnum \<Rightarrow> nat \<Rightarrow> string" where
  "toFixed rt x f =
     (case finite_value x of
        Some q \<Rightarrow>
          (let s = (if q < 0 then ''-'' else []);
               a = \<bar>q\<bar>
           in if 10 ^ 21 \<le> a then s @ Number_toString rt (Fin a)
              else
                (let n = nat \<lfloor>a * 10 ^ f + 1 / 2\<rfloor>;
                     m = decimal n;
                     m' = (if f \<noteq> 0 \<and> length m \<le> f
                           then replicate (f + 1 - length m) (CHR ''0'') @ m else m);
                     k = length m'
                 in s @ (if f \<noteq> 0 then take (k - f) m' @ ''.'' @ drop (k - f) m' else m')))
      | None \<Rightarrow> Number_toString rt x)"

definition ToNumber :: "runtime \<Rightarrow> jsval \<Rightarrow> jsnum" where
  "ToNumber rt v =
     (case v of Undefined \<Rightarrow> NaN | Null \<Rightarrow> Fin 0 | Num x \<Rightarrow> x | Str s \<Rightarrow> StringToNumber rt s)"

definition ToString :: "runtime \<Rightarrow> jsval \<Rightarrow> string" where
  "ToString rt v =
     (case v of Undefined \<Rightarrow> ''undefined'' | Null \<Rightarrow> ''null''
      | Num x \<Rightarrow> Number_toString rt x | Str s \<Rightarrow> s)"

definition ToBoolean :: "jsval \<Rightarrow> bool" where
  "ToBoolean v =
     (case v of Undefined \<Rightarrow> False | Null \<Rightarrow> False
      | Num x \<Rightarrow> x \<noteq> Fin 0 \<and> x \<noteq> NZero \<and> x \<noteq> NaN | Str s \<Rightarrow> s \<noteq> [])"

subsection \<open>Property access\<close>

text \<open>\<open>Object.prototype.hasOwnProperty.call(obj, key)\<close>\<close>

definition hasOwnProperty :: "jsobj \<Rightarrow> string \<Rightarrow> bool" where
  "hasOwnProperty obj k = (map_of (own obj) k \<noteq> None)"

text \<open>\<open>obj.key\<close>: the own property, else the prototype chain, else \<open>undefined\<close>.\<close>

fun Get :: "jsobj \<Rightarrow> string \<Rightarrow> jsval" where
  "Get (JSObj ps pr) k =
     (case map_of ps k of
        Some v \<Rightarrow> v
      | None \<Rightarrow> (case pr of None \<Rightarrow> Undefined | Some p \<Rightarrow> Get p k))"

text \<open>Assignment to a property of a plain object: overwrite in place, or append.\<close>

fun set_prop :: "(string \<times> jsval) list \<Rightarrow> string \<Rightarrow> jsval \<Rightarrow> (string \<times> jsval) list" where
  "set_prop [] k v = [(k, v)]"
| "set_prop ((k', v') # ps) k v =
     (if k' = k then (k, v) # ps else (k', v') # set_prop ps k v)"

text \<open>\<open>Object.assign(target, source)\<close>: the own properties of the source, in order.\<close>

definition Object_assign :: "jsobj \<Rightarrow> jsobj \<Rightarrow> jsobj" where
  "Object_assign target source =
     JSObj (fold (\<lambda>(k, v) ps. set_prop ps k v) (own source) (own target)) (proto target)"

text \<open>
  The rest element of an object pattern, \<open>const {a, b, ...rest} = obj\<close>: a fresh plain
  object with the own properties of \<open>obj\<close> that the pattern does not name.
\<close>

definition rest_properties :: "string list \<Rightarrow> jsobj \<Rightarrow> jsobj" where
  "rest_properties named obj = JSObj (filter (\<lambda>(k, v). k \<notin> set named) (own obj)) None"

section \<open>Entity constructors\<close>

definition EXPECTED_PROPERTIES :: "string list" where
  "EXPECTED_PROPERTIES =
     [''species'', ''weight'', ''height'', ''diet'', ''where'', ''when'', ''fact'']"

definition Animal :: "jsobj \<Rightarrow> jsobj" where
  "Animal properties =
     JSObj [(''weight'', Get properties ''weight''),
            (''height'', Get properties ''height''),
            (''diet'', Get properties ''diet'')] None"

definition Human :: "jsobj \<Rightarrow> jsobj" where
  "Human properties =
     (let name = Get properties ''name'';
          rest = rest_properties [''name''] properties
      in Object_assign (Animal rest) (JSObj [(''name'', name)] None))"

text \<open>
  The \<open>forEach\<close> over the expected names: the callback throws at the first name that is
  not an own property, which ends the loop and the constructor.
\<close>

fun check_properties :: "jsobj \<Rightarrow> string list \<Rightarrow> exn option" where
  "check_properties properties [] = None"
| "check_properties properties (v # vs) =
     (if \<not> hasOwnProperty properties v
      then Some (Error (''Missing required Dinosaur property: '' @ v))
      else check_properties properties vs)"

definition Dino :: "jsobj \<Rightarrow> exn + jsobj" where
  "Dino properties =
     (case check_properties properties EXPECTED_PROPERTIES of
        Some e \<Rightarrow> Inl e
      | None \<Rightarrow>
          (let species = Get properties ''species'';
               where' = Get properties ''where'';
               when' = Get properties ''when'';
               fact = Get properties ''fact'';
               rest = rest_properties [''species'', ''where'', ''when'', ''fact''] properties
           in Inr (Object_assign (Animal rest)
                    (JSObj [(''species'', species), (''where'', where'),
                            (''when'', when'), (''fact'', fact)] None))))"

text \<open>
  The start of the script: \<open>data.Dinos.forEach(value => dinos.push(Dino(value)))\<close>.
  An exception of \<open>Dino\<close> is not caught, so it ends the script.
\<close>

fun load_dinos :: "jsobj list \<Rightarrow> jsobj list \<Rightarrow> exn + jsobj list" where
  "load_dinos dinos [] = Inr dinos"
| "load_dinos dinos (v # vs) =
     (case Dino v of Inl e \<Rightarrow> Inl e | Inr d \<Rightarrow> load_dinos (dinos @ [d]) vs)"

section \<open>Comparisons\<close>

text \<open>
  The three functions are called with \<open>this\<close> bound to the animal that speaks, here
  the first argument after the runtime.
\<close>

definition compareWeights :: "runtime \<Rightarrow> jsobj \<Rightarrow> jsobj \<Rightarrow> string" where
  "compareWeights rt this animal =
     (let aw = ToNumber rt (Get animal ''weight'');
          tw = ToNumber rt (Get this ''weight'');
          diff = num_sub rt aw tw
      in if num_less (Fin 0) diff then
           ''At '' @ ToString rt (Get this ''weight'') @ '' lbs, I am about '' @
           Number_toString rt (Math_round (num_div rt (num_mul rt (Fin 100) (num_sub rt aw tw)) aw)) @
           ''% '' @ ''lighter than you''
         else if num_less diff (Fin 0) then
           ''At '' @ ToString rt (Get this ''weight'') @ '' lbs, I am about '' @
           Number_toString rt (Math_round (num_div rt (num_mul rt (Fin 100) (num_sub rt tw aw)) aw)) @
           ''% '' @ ''heavier than you''
         else ''We have the exact same weight!'')"

definition compareHeights :: "runtime \<Rightarrow> jsobj \<Rightarrow> jsobj \<Rightarrow> string" where
  "compareHeights rt this animal =
     (let ah = ToNumber rt (Get animal ''height'');
          th = ToNumber rt (Get this ''height'');
          diff = num_sub rt ah th
      in if num_less (Fin 0) diff then
           ''At '' @ toFixed rt (num_div rt th (Fin 12)) 2 @ '' feet, I am about '' @
           Number_toString rt (Math_round (num_div rt (num_mul rt (Fin 100) (num_sub rt ah th)) ah)) @
           ''% '' @ ''smaller than you''
         else if num_less diff (Fin 0) then
           ''At '' @ toFixed rt (num_div rt th (Fin 12)) 2 @ '' feet, I am about '' @
           Number_toString rt (Math_round (num_div rt (num_mul rt (Fin 100) (num_sub rt th ah)) ah)) @
           ''% '' @ ''taller than you''
         else ''We have the exact same height!'')"

definition compareDiet :: "jsobj \<Rightarrow> jsobj \<Rightarrow> string" where
  "compareDiet this animal =
     (if Get this ''diet'' \<noteq> Str ''herbivore'' \<and> Get animal ''diet'' = Str ''herbivore'' then
        ''Really, you don't eat meat ?''
      else if Get this ''diet'' = Str ''herbivore'' \<and> Get animal ''diet'' \<noteq> Str ''herbivore'' then
        ''I think you shouldn't eat meat, you know.''
      else if Get this ''diet'' \<noteq> Str ''carnivore'' \<and> Get animal ''diet'' = Str ''carnivore'' then
        ''I think you should try some vegetables, you know !''
      else if Get this ''diet'' = Str ''carnivore'' \<and> Get animal ''diet'' \<noteq> Str ''carnivore'' then
        ''Why do you waste your appetite on vegetables ?''
      else ''We like the same food !'')"

section \<open>Tiles\<close>

text \<open>The line break and the indentation inside the template literal.\<close>

definition line_break :: string where
  "line_break = [CHR 0x0A]"

definition indent :: "nat \<Rightarrow> string" where
  "indent n = replicate n (CHR '' '')"

text \<open>
  An argument that the caller leaves out is \<open>undefined\<close>. The parameters \<open>fact\<close> and
  \<open>image\<close> are assigned to; \<open>fact0\<close> and \<open>image0\<close> are the values passed.
\<close>

definition generateTileHTML :: "runtime \<Rightarrow> jsval \<Rightarrow> jsval \<Rightarrow> jsval \<Rightarrow> string" where
  \<open>generateTileHTML rt caption fact0 image0 =
     (let image = (if ToBoolean image0 then image0 else caption);
          fact = (if ToBoolean fact0 then fact0 else Null)
      in ''<div class="grid-item">'' @ line_break @ indent 16 @
         ''<h3>'' @ ToString rt caption @ ''</h3>'' @ line_break @ indent 16 @
         ''<img src="images/'' @ ToString rt image @ ''.png" alt="'' @
           ToString rt caption @ '' image"/>'' @ line_break @ indent 16 @
         (if ToBoolean fact then ''<p>'' @ ToString rt fact @ ''</p>'' else []) @
         line_break @ indent 12 @
         ''</div>'')\<close>

text \<open>
  \<open>Math.random()\<close>: the source of random numbers is the sequence of the values that
  the successive calls return, each in \<open>[0, 1)\<close>; a call takes the first and leaves
  the rest.
\<close>

type_synonym rng = "nat \<Rightarrow> rat"

definition Math_random :: "rng \<Rightarrow> rat \<times> rng" where
  "Math_random g = (g 0, \<lambda>n. g (Suc n))"

text \<open>\<open>array[x]\<close> for a number \<open>x\<close>: \<open>undefined\<close> unless \<open>x\<close> is an index of the array.\<close>

definition array_get :: "jsval list \<Rightarrow> jsnum \<Rightarrow> jsval" where
  "array_get xs x =
     (case finite_value x of
        Some q \<Rightarrow> if of_int \<lfloor>q\<rfloor> = q \<and> 0 \<le> q \<and> nat \<lfloor>q\<rfloor> < length xs
                  then xs ! nat \<lfloor>q\<rfloor> else Undefined
      | None \<Rightarrow> Undefined)"

text \<open>The six facts of a dinosaur tile, in the order of the array literal.\<close>

definition facts_of :: "runtime \<Rightarrow> jsobj \<Rightarrow> jsobj \<Rightarrow> jsval list" where
  "facts_of rt human other =
     [Str (''Location: '' @ ToString rt (Get other ''where'')),
      Str (''When I lived: '' @ ToString rt (Get other ''when'')),
      Get other ''fact'',
      Str (compareDiet other human),
      Str (compareHeights rt other human),
      Str (compareWeights rt other human)]"

text \<open>The index \<open>Math.round(Math.random() * 5)\<close> for a draw \<open>u\<close>.\<close>

definition tile_index :: "runtime \<Rightarrow> rat \<Rightarrow> jsnum" where
  "tile_index rt u = Math_round (num_mul rt (Fin u) (Fin 5))"

text \<open>
  The same index when the draw is taken as a real number, so that the product is not
  rounded.
\<close>

definition real_arithmetic :: runtime where
  "real_arithmetic =
     \<lparr>shortest_digits = (\<lambda>q. []), StringToNumber = (\<lambda>s. NaN), round64 = Fin\<rparr>"

definition fact_index :: "rat \<Rightarrow> jsnum" where
  "fact_index u = tile_index real_arithmetic u"

text \<open>
  \<open>getTileHTML(human, ...others)\<close>: \<open>others\<close> are the arguments after the first, so
  \<open>arguments.length\<close> is one more than their number; an argument is an object or
  \<open>undefined\<close> (\<open>None\<close>), and reading a property of \<open>undefined\<close> throws.
\<close>

definition getTileHTML ::
  "runtime \<Rightarrow> jsobj \<Rightarrow> jsobj option list \<Rightarrow> rng \<Rightarrow> exn + string \<times> rng" where
  "getTileHTML rt human others g =
     (if Suc (length others) \<noteq> 2 then
        Inr (generateTileHTML rt (Get human ''name'') (Str []) (Str ''human''), g)
      else
        (case hd others of
           None \<Rightarrow> Inl TypeError
         | Some other \<Rightarrow>
             if Get other ''species'' = Str ''Pigeon'' then
               Inr (generateTileHTML rt (Str ''Pigeon'') (Get other ''fact'') Undefined, g)
             else
               (let facts = facts_of rt human other;
                    (u, g') = Math_random g;
                    fact = array_get facts (tile_index rt u)
                in Inr (generateTileHTML rt (Get other ''species'') fact Undefined, g'))))"

text \<open>
  The page: the markup of the grid (\<open>grid.innerHTML\<close>, taken as the string that
  \<open>+=\<close> extends) and the source of random numbers.
\<close>

record page =
  innerHTML :: string
  random :: rng

text \<open>\<open>dinos[i]\<close>: \<open>undefined\<close> beyond the end of the array.\<close>

definition dinos_at :: "jsobj list \<Rightarrow> nat \<Rightarrow> jsobj option" where
  "dinos_at dinos i = (if i < length dinos then Some (dinos ! i) else None)"

text \<open>
  \<open>for (let i = lo; i < hi; i++) grid.innerHTML += getTileHTML(human, dinos[i])\<close>.
  An exception leaves the page as the tiles before it made it.
\<close>

function add_dino_tiles ::
  "runtime \<Rightarrow> jsobj list \<Rightarrow> jsobj \<Rightarrow> nat \<Rightarrow> nat \<Rightarrow> page \<Rightarrow> exn option \<times> page" where
  "add_dino_tiles rt dinos human i hi pg =
     (if i < hi then
        (case getTileHTML rt human [dinos_at dinos i] (random pg) of
           Inl e \<Rightarrow> (Some e, pg)
         | Inr (tile, g) \<Rightarrow>
             add_dino_tiles rt dinos human (Suc i) hi
               (pg\<lparr>innerHTML := innerHTML pg @ tile, random := g\<rparr>))
      else (None, pg))"
  by pat_completeness auto
termination
  by (relation "measure (\<lambda>(rt, dinos, human, i, hi, pg). hi - i)") auto

declare add_dino_tiles.simps [simp del]

definition addTiles :: "runtime \<Rightarrow> jsobj list \<Rightarrow> jsobj \<Rightarrow> page \<Rightarrow> exn option \<times> page" where
  "addTiles rt dinos human pg =
     (case add_dino_tiles rt dinos human 0 4 pg of
        (Some e, pg1) \<Rightarrow> (Some e, pg1)
      | (None, pg1) \<Rightarrow>
          (case getTileHTML rt human [] (random pg1) of
             Inl e \<Rightarrow> (Some e, pg1)
           | Inr (tile, g) \<Rightarrow>
               add_dino_tiles rt dinos human 4 8
                 (pg1\<lparr>innerHTML := innerHTML pg1 @ tile, random := g\<rparr>)))"

text \<open>The markup of a tile with its heading, its image and its paragraph, if any.\<close>

abbreviation tile_markup :: "string \<Rightarrow> string \<Rightarrow> string \<Rightarrow> string" where
  \<open>tile_markup caption picture paragraph \<equiv>
     ''<div class="grid-item">'' @ line_break @ indent 16 @
     ''<h3>'' @ caption @ ''</h3>'' @ line_break @ indent 16 @
     ''<img src="images/'' @ picture @ ''.png" alt="'' @ caption @ '' image"/>'' @
     line_break @ indent 16 @ paragraph @ line_break @ indent 12 @ ''</div>''\<close>

abbreviation paragraph_of :: "runtime \<Rightarrow> jsval \<Rightarrow> string" where
  "paragraph_of rt body \<equiv> (if ToBoolean body then ''<p>'' @ ToString rt body @ ''</p>'' else [])"

text \<open>
  What the tile of a dinosaur may be: the tile of the sentinel with its fact, or a tile
  whose paragraph is one of the six candidates: where it lived, when it lived, its fact,
  and what it says of the diet, the height and the weight of the human.
\<close>

abbreviation dino_tile :: "runtime \<Rightarrow> jsobj \<Rightarrow> jsobj \<Rightarrow> string \<Rightarrow> bool" where
  "dino_tile rt human d t \<equiv>
     (if Get d ''species'' = Str ''Pigeon''
      then t = tile_markup ''Pigeon'' ''Pigeon'' (paragraph_of rt (Get d ''fact''))
      else \<exists>body\<in>set [Str (''Location: '' @ ToString rt (Get d ''where'')),
                         Str (''When I lived: '' @ ToString rt (Get d ''when'')),
                         Get d ''fact'',
                         Str (compareDiet d human),
                         Str (compareHeights rt d human),
                         Str (compareWeights rt d human)].
             t = tile_markup (ToString rt (Get d ''species'')) (ToString rt (Get d ''species''))
                   (paragraph_of rt body))"

text \<open>Every value of the source of random numbers lies in \<open>[0, 1)\<close>.\<close>

abbreviation unit_draws :: "rng \<Rightarrow> bool" where
  "unit_draws g \<equiv> \<forall>n. 0 \<le> g n \<and> g n < 1"

section \<open>Binary64\<close>

text \<open>
  Every finite binary64 value is an integer multiple of the least positive one,
  \<open>2^-1074\<close>.
\<close>

definition binary64_grid :: "rat \<Rightarrow> bool" where
  "binary64_grid q = (of_int \<lfloor>q * 2 ^ 1074\<rfloor> = q * 2 ^ 1074)"

text \<open>
  What the theorems below use of the rounding to nearest. Zero, the least positive value
  and five are binary64 values, and the rounding is monotone: a result of magnitude at
  least \<open>2^-1074\<close> keeps its sign, and a result between zero and five is rounded to a
  finite value between zero and five.
\<close>

definition rounds_to_nearest :: "runtime \<Rightarrow> bool" where
  "rounds_to_nearest rt =
     (\<forall>q. (1 / 2 ^ 1074 \<le> q \<longrightarrow> num_less (Fin 0) (round64 rt q)) \<and>
          (q \<le> - (1 / 2 ^ 1074) \<longrightarrow> num_less (round64 rt q) (Fin 0)) \<and>
          (0 < q \<and> q < 5 \<longrightarrow> (\<exists>r. round64 rt q = Fin r \<and> 0 \<le> r \<and> r \<le> 5)))"

text \<open>
  Rounding to nearest, ties to even, as a function: the exponent of the value (at
  least that of the subnormal numbers), the integer nearest to the value in units of the
  last of 53 binary places, overflow from \<open>2^1024\<close> on.
\<close>

definition floor_log2 :: "rat \<Rightarrow> int" where
  "floor_log2 a =
     (case quotient_of a of
        (p, d) \<Rightarrow> (let k = bitlen p - bitlen d in if 2 powi k \<le> a then k else k - 1))"

definition round_half_even :: "rat \<Rightarrow> int" where
  "round_half_even t =
     (let n = \<lfloor>t\<rfloor>; f = t - of_int n
      in if f < 1 / 2 then n else if 1 / 2 < f then n + 1 else if even n then n else n + 1)"

definition round_binary64 :: "rat \<Rightarrow> jsnum" where
  "round_binary64 q =
     (let a = \<bar>q\<bar>;
          e = max (floor_log2 a) (- 1022);
          ulp = 2 powi (e - 52);
          n = round_half_even (a / ulp);
          r = of_int n * ulp
      in if 2 ^ 1024 \<le> r then inf_of (q < 0)
         else if n = 0 then zero_of (q < 0)
         else Fin (if q < 0 then - r else r))"

section \<open>Sample data\<close>

text \<open>
  A runtime, records and form values on which the theorems below are evaluated. The
  runtime rounds to binary64. All the numbers that are printed are safe integers or are
  printed by \<open>toFixed\<close>, so no result depends on the other two parts of the runtime.
\<close>

definition sample_runtime :: runtime where
  "sample_runtime =
     \<lparr>shortest_digits = (\<lambda>q. []), StringToNumber = (\<lambda>s. NaN), round64 = round_binary64\<rparr>"

definition dino_record ::
  "string \<Rightarrow> rat \<Rightarrow> rat \<Rightarrow> string \<Rightarrow> string \<Rightarrow> string \<Rightarrow> string \<Rightarrow> jsobj" where
  "dino_record species weight height diet where' when' trivia =
     JSObj [(''species'', Str species), (''weight'', Num (Fin weight)),
            (''height'', Num (Fin height)), (''diet'', Str diet), (''where'', Str where'),
            (''when'', Str when'), (''fact'', Str trivia)] None"

text \<open>A record with a property that no constructor names.\<close>

definition trex :: jsobj where
  "trex = JSObj [(''species'', Str ''T-Rex''), (''weight'', Num (Fin 13000)),
                 (''height'', Num (Fin 144)), (''diet'', Str ''carnivore''),
                 (''where'', Str ''North America''), (''when'', Str ''Late Cretaceous''),
                 (''fact'', Str ''The largest known skull measures 5 feet long.''),
                 (''color'', Str ''green'')] None"

definition stego :: jsobj where
  "stego = dino_record ''Stegosaurus'' 11600 79 ''herbivore'' ''North America''
             ''Late Jurassic'' ''The plates on its back stood upright.''"

definition pigeon :: jsobj where
  "pigeon = dino_record ''Pigeon'' (1 / 2) 9 ''herbivore'' ''World Wide'' ''Holocene''
              ''All birds are living dinosaurs.''"

text \<open>A record without \<open>where\<close> of its own, which its prototype has.\<close>

definition homeless :: jsobj where
  "homeless = JSObj [(''species'', Str ''Elasmosaurus''), (''weight'', Num (Fin 16000)),
                     (''height'', Num (Fin 59)), (''diet'', Str ''carnivore''),
                     (''when'', Str ''Late Cretaceous''), (''fact'', Str ''A marine reptile.'')]
                (Some (JSObj [(''where'', Str ''North America'')] None))"

definition triceratops :: jsobj where
  "triceratops = dino_record ''Triceratops'' 13000 114 ''herbivore'' ''North America''
                   ''Late Cretaceous'' ''First discovered in 1889.''"

definition anklyosaurus :: jsobj where
  "anklyosaurus = dino_record ''Anklyosaurus'' 10500 55 ''herbivore'' ''North America''
                    ''Late Cretaceous'' ''It had a club on its tail.''"

definition brachiosaurus :: jsobj where
  "brachiosaurus = dino_record ''Brachiosaurus'' 70000 372 ''herbivore'' ''North America''
                     ''Late Jurassic'' ''It held its neck upright.''"

definition elasmosaurus :: jsobj where
  "elasmosaurus = dino_record ''Elasmosaurus'' 16000 59 ''carnivore'' ''North America''
                    ''Late Cretaceous'' ''A marine reptile.''"

definition pteranodon :: jsobj where
  "pteranodon = dino_record ''Pteranodon'' 44 20 ''carnivore'' ''North America''
                  ''Late Cretaceous'' ''A flying reptile.''"

definition sample_data :: "jsobj list" where
  "sample_data =
     [trex, stego, triceratops, anklyosaurus, brachiosaurus, elasmosaurus, pteranodon, pigeon]"

text \<open>The values of the form, with a property that no constructor names.\<close>

definition ann :: jsobj where
  "ann = JSObj [(''name'', Str ''Ann''), (''height'', Num (Fin 65)),
                (''weight'', Num (Fin 120)), (''diet'', Str ''omnivore''),
                (''age'', Num (Fin 30))] None"

text \<open>
  Form values and a record with numbers that are not integers: the decimal numbers
  \<open>62.1\<close>, \<open>166.4\<close>, \<open>38.4\<close> and \<open>0.9\<close> as binary64 values.
\<close>

definition bob :: jsobj where
  "bob = JSObj [(''name'', Str ''Bob''), (''height'', Num (round_binary64 (621 / 10))),
                (''weight'', Num (round_binary64 (832 / 5))), (''diet'', Str ''herbivore'')] None"

definition hatchling :: jsobj where
  "hatchling = JSObj [(''species'', Str ''Hatchling''), (''weight'', Num (round_binary64 (192 / 5))),
                      (''height'', Num (round_binary64 (9 / 10))), (''diet'', Str ''carnivore''),
                      (''where'', Str ''North America''), (''when'', Str ''Late Cretaceous''),
                      (''fact'', Str ''Just out of the egg.'')] None"

text \<open>A source of random numbers that returns the numbers of a list, then zero.\<close>

fun draws :: "rat list \<Rightarrow> rng" where
  "draws [] n = 0"
| "draws (x # xs) 0 = x"
| "draws (x # xs) (Suc n) = draws xs n"

text \<open>An empty grid, and seven draws, each a binary64 value.\<close>

definition blank_page :: page where
  "blank_page =
     \<lparr>innerHTML = [],
      random = draws [1 / 16, 1 / 4, 3 / 8, 5 / 8, 13 / 16, 15 / 16, 1 / 2]\<rparr>"

section \<open>Objects\<close>

lemma own_Human:
  "own (Human p) =
     [(''weight'', Get (rest_properties [''name''] p) ''weight''),
      (''height'', Get (rest_properties [''name''] p) ''height''),
      (''diet'', Get (rest_properties [''name''] p) ''diet''),
      (''name'', Get p ''name'')]"
  by (simp add: Human_def Animal_def Object_assign_def Let_def)

lemma map_of_filter_named:
  "map_of (filter (\<lambda>(k, v). k \<notin> set named) ps) k =
     (if k \<in> set named then None else map_of ps k)"
  by (induction ps) auto

lemma Get_rest_properties:
  "Get (rest_properties named p) k =
     (if k \<in> set named then Undefined
      else case map_of (own p) k of None \<Rightarrow> Undefined | Some v \<Rightarrow> v)"
  by (simp add: rest_properties_def map_of_filter_named split: option.splits)


text \<open>
  C10. \<open>Animal\<close> and \<open>Human\<close> are total on objects: they read properties, and a
  property that is absent reads as \<open>undefined\<close>, so there is nothing for them to throw.
  The object they return is a plain one whose own properties are \<open>weight\<close>,
  \<open>height\<close>, \<open>diet\<close> and, for a human, \<open>name\<close>, in this order; any other
  name is not a property of it and reads as \<open>undefined\<close>.
\<close>

theorem Animal_Human_fields:
  "map fst (own (Animal p)) = [''weight'', ''height'', ''diet''] \<and>
   proto (Animal p) = None \<and>
   map fst (own (Human p)) = [''weight'', ''height'', ''diet'', ''name''] \<and>
   proto (Human p) = None \<and>
   hasOwnProperty (Animal p) k = (k \<in> {''weight'', ''height'', ''diet''}) \<and>
   hasOwnProperty (Human p) k = (k \<in> {''weight'', ''height'', ''diet'', ''name''}) \<and>
   (k \<notin> {''weight'', ''height'', ''diet''} \<longrightarrow> Get (Animal p) k = Undefined) \<and>
   (k \<notin> {''weight'', ''height'', ''diet'', ''name''} \<longrightarrow> Get (Human p) k = Undefined)"
  unfolding own_Human hasOwnProperty_def
  apply (simp add: Animal_def Human_def Object_assign_def Let_def)
  done

theorem Animal_Human_fields_witness:
  "hasOwnProperty ann ''age'' \<and> Get ann ''age'' = Num (Fin 30) \<and>
   own (Human ann) = [(''weight'', Num (Fin 120)), (''height'', Num (Fin 65)),
                      (''diet'', Str ''omnivore''), (''name'', Str ''Ann'')] \<and>
   \<not> hasOwnProperty (Human ann) ''age'' \<and> Get (Human ann) ''age'' = Undefined \<and>
   \<not> hasOwnProperty (Animal ann) ''name'' \<and> Get (Animal ann) ''name'' = Undefined \<and>
   own (Human (JSObj [] None)) = [(''weight'', Undefined), (''height'', Undefined),
                      (''diet'', Undefined), (''name'', Undefined)]"
  using Animal_Human_fields [of ann "''age''"] Animal_Human_fields [of ann "''name''"]
  by (simp add: own_Human Get_rest_properties ann_def hasOwnProperty_def)


section \<open>Diets\<close>

text \<open>
  C6. \<open>compareDiet\<close> tests four conditions in order and the first that holds decides:
  a message of a later condition is returned exactly when that condition holds and no
  earlier one does. The last message is returned exactly when none holds, which is when
  the two animals agree on being herbivores and on being carnivores; in particular when
  their diets are equal.
\<close>

theorem compareDiet_first_match:
  "(compareDiet A B = ''Really, you don't eat meat ?'' \<longleftrightarrow>
      Get A ''diet'' \<noteq> Str ''herbivore'' \<and> Get B ''diet'' = Str ''herbivore'') \<and>
   (compareDiet A B = ''I think you shouldn't eat meat, you know.'' \<longleftrightarrow>
      Get A ''diet'' = Str ''herbivore'' \<and> Get B ''diet'' \<noteq> Str ''herbivore'') \<and>
   (compareDiet A B = ''I think you should try some vegetables, you know !'' \<longleftrightarrow>
      Get A ''diet'' \<noteq> Str ''herbivore'' \<and> Get B ''diet'' \<noteq> Str ''herbivore'' \<and>
      Get A ''diet'' \<noteq> Str ''carnivore'' \<and> Get B ''diet'' = Str ''carnivore'') \<and>
   (compareDiet A B = ''Why do you waste your appetite on vegetables ?'' \<longleftrightarrow>
      Get A ''diet'' \<noteq> Str ''herbivore'' \<and> Get B ''diet'' \<noteq> Str ''herbivore'' \<and>
      Get A ''diet'' = Str ''carnivore'' \<and> Get B ''diet'' \<noteq> Str ''carnivore'') \<and>
   (compareDiet A B = ''We like the same food !'' \<longleftrightarrow>
      (Get A ''diet'' = Str ''herbivore'' \<longleftrightarrow> Get B ''diet'' = Str ''herbivore'') \<and>
      (Get A ''diet'' = Str ''carnivore'' \<longleftrightarrow> Get B ''diet'' = Str ''carnivore'')) \<and>
   (Get A ''diet'' = Get B ''diet'' \<longrightarrow> compareDiet A B = ''We like the same food !'')"
  by (simp add: compareDiet_def)

theorem compareDiet_first_match_witness:
  "Get ann ''diet'' = Get (Human ann) ''diet'' \<and>
   compareDiet ann (Human ann) = ''We like the same food !'' \<and>
   compareDiet trex stego = ''Really, you don't eat meat ?'' \<and>
   compareDiet stego trex = ''I think you shouldn't eat meat, you know.'' \<and>
   compareDiet ann trex = ''I think you should try some vegetables, you know !'' \<and>
   compareDiet trex ann = ''Why do you waste your appetite on vegetables ?''"
  using compareDiet_first_match [of ann "Human ann"] compareDiet_first_match [of trex stego]
    compareDiet_first_match [of stego trex] compareDiet_first_match [of ann trex]
    compareDiet_first_match [of trex ann]
  by (simp add: ann_def trex_def stego_def dino_record_def Human_def Animal_def
      Object_assign_def Get_rest_properties)


text \<open>
  C7. Swapping the arguments swaps the first message with the second and the third with
  the fourth. When exactly one of the two animals is a herbivore the two calls return the
  first and the second message, one each; when neither is a herbivore and exactly one is
  a carnivore they return the third and the fourth, one each.
\<close>

theorem compareDiet_swap:
  "(compareDiet A B = ''Really, you don't eat meat ?'' \<longleftrightarrow>
      compareDiet B A = ''I think you shouldn't eat meat, you know.'') \<and>
   (compareDiet A B = ''I think you should try some vegetables, you know !'' \<longleftrightarrow>
      compareDiet B A = ''Why do you waste your appetite on vegetables ?'') \<and>
   ((Get A ''diet'' = Str ''herbivore'') \<noteq> (Get B ''diet'' = Str ''herbivore'') \<longrightarrow>
      (compareDiet A B, compareDiet B A) \<in>
        {(''Really, you don't eat meat ?'', ''I think you shouldn't eat meat, you know.''),
         (''I think you shouldn't eat meat, you know.'', ''Really, you don't eat meat ?'')}) \<and>
   ((Get A ''diet'' = Str ''carnivore'') \<noteq> (Get B ''diet'' = Str ''carnivore'') \<and>
    Get A ''diet'' \<noteq> Str ''herbivore'' \<and> Get B ''diet'' \<noteq> Str ''herbivore'' \<longrightarrow>
      (compareDiet A B, compareDiet B A) \<in>
        {(''I think you should try some vegetables, you know !'',
          ''Why do you waste your appetite on vegetables ?''),
         (''Why do you waste your appetite on vegetables ?'',
          ''I think you should try some vegetables, you know !'')})"
  by (simp add: compareDiet_def)


theorem compareDiet_swap_witness:
  "(Get trex ''diet'' = Str ''herbivore'') \<noteq> (Get stego ''diet'' = Str ''herbivore'') \<and>
   (compareDiet trex stego, compareDiet stego trex) \<in>
     {(''Really, you don't eat meat ?'', ''I think you shouldn't eat meat, you know.''),
      (''I think you shouldn't eat meat, you know.'', ''Really, you don't eat meat ?'')} \<and>
   (Get ann ''diet'' = Str ''carnivore'') \<noteq> (Get trex ''diet'' = Str ''carnivore'') \<and>
   Get ann ''diet'' \<noteq> Str ''herbivore'' \<and> Get trex ''diet'' \<noteq> Str ''herbivore'' \<and>
   (compareDiet ann trex, compareDiet trex ann) \<in>
     {(''I think you should try some vegetables, you know !'',
       ''Why do you waste your appetite on vegetables ?''),
      (''Why do you waste your appetite on vegetables ?'',
       ''I think you should try some vegetables, you know !'')}"
proof -
  have h: "(Get trex ''diet'' = Str ''herbivore'') \<noteq> (Get stego ''diet'' = Str ''herbivore'')"
    by (simp add: trex_def stego_def dino_record_def)
  have c: "(Get ann ''diet'' = Str ''carnivore'') \<noteq> (Get trex ''diet'' = Str ''carnivore'')"
    "Get ann ''diet'' \<noteq> Str ''herbivore''" "Get trex ''diet'' \<noteq> Str ''herbivore''"
    by (simp_all add: ann_def trex_def)
  from h c compareDiet_swap [of trex stego] compareDiet_swap [of ann trex]
  show ?thesis by blast
qed

section \<open>Dinosaur construction\<close>

lemma check_properties_None:
  "check_properties p ks = None \<longleftrightarrow> (\<forall>k\<in>set ks. hasOwnProperty p k)"
  by (induction ks) auto

lemma check_properties_first_missing:
  "\<forall>x\<in>set pre. hasOwnProperty p x \<Longrightarrow> \<not> hasOwnProperty p k \<Longrightarrow>
   check_properties p (pre @ k # post) =
     Some (Error (''Missing required Dinosaur property: '' @ k))"
  by (induction pre) auto

lemma check_properties_SomeD:
  "check_properties p ks = Some e \<Longrightarrow>
   \<exists>pre k post. ks = pre @ k # post \<and> (\<forall>x\<in>set pre. hasOwnProperty p x) \<and>
     \<not> hasOwnProperty p k \<and> e = Error (''Missing required Dinosaur property: '' @ k)"
proof (induction ks)
  case Nil
  then show ?case by simp
next
  case (Cons v vs)
  show ?case
  proof (cases "hasOwnProperty p v")
    case False
    with Cons.prems have "e = Error (''Missing required Dinosaur property: '' @ v)"
      by simp
    with False show ?thesis by (intro exI [of _ "[]"] exI [of _ v] exI [of _ vs]) simp
  next
    case True
    with Cons.prems have "check_properties p vs = Some e" by simp
    from Cons.IH [OF this] obtain pre k post where
      "vs = pre @ k # post" "\<forall>x\<in>set pre. hasOwnProperty p x" "\<not> hasOwnProperty p k"
      "e = Error (''Missing required Dinosaur property: '' @ k)" by blast
    with True show ?thesis
      by (intro exI [of _ "v # pre"] exI [of _ k] exI [of _ post]) simp
  qed
qed

lemma check_properties_own:
  "check_properties (JSObj ps pr) ks = check_properties (JSObj ps None) ks"
  by (induction ks) (auto simp: hasOwnProperty_def)

lemma Get_own:
  "hasOwnProperty (JSObj ps pr) k \<Longrightarrow> Get (JSObj ps pr) k = the (map_of ps k)"
  by (auto simp: hasOwnProperty_def)

lemma Dino_own: "Dino (JSObj ps pr) = Dino (JSObj ps None)"
proof (cases "check_properties (JSObj ps None) EXPECTED_PROPERTIES")
  case (Some e)
  then show ?thesis by (simp add: Dino_def check_properties_own [of ps pr])
next
  case None
  then have own: "hasOwnProperty (JSObj ps q) k" if "k \<in> set EXPECTED_PROPERTIES" for k q
    using that by (auto simp: check_properties_None hasOwnProperty_def)
  have "Get (JSObj ps pr) k = Get (JSObj ps None) k" if "k \<in> set EXPECTED_PROPERTIES" for k
    using own [OF that, of pr] own [OF that, of None] by (simp only: Get_own)
  then have "Get (JSObj ps pr) ''species'' = Get (JSObj ps None) ''species''"
    "Get (JSObj ps pr) ''where'' = Get (JSObj ps None) ''where''"
    "Get (JSObj ps pr) ''when'' = Get (JSObj ps None) ''when''"
    "Get (JSObj ps pr) ''fact'' = Get (JSObj ps None) ''fact''"
    by (simp_all add: EXPECTED_PROPERTIES_def)
  moreover have "rest_properties named (JSObj ps pr) = rest_properties named (JSObj ps None)"
    for named by (simp add: rest_properties_def)
  ultimately show ?thesis
    unfolding Dino_def check_properties_own [of ps pr] by (simp only: Let_def)
qed

lemma load_dinos_error:
  "\<forall>x\<in>set pre. \<exists>d. Dino x = Inr d \<Longrightarrow> Dino v = Inl e \<Longrightarrow>
   load_dinos acc (pre @ v # post) = Inl e"
  by (induction pre arbitrary: acc) auto

lemma Dino_success:
  assumes "\<forall>k\<in>set EXPECTED_PROPERTIES. hasOwnProperty p k"
  shows "Dino p =
     Inr (JSObj [(''weight'', the (map_of (own p) ''weight'')),
                 (''height'', the (map_of (own p) ''height'')),
                 (''diet'', the (map_of (own p) ''diet'')),
                 (''species'', the (map_of (own p) ''species'')),
                 (''where'', the (map_of (own p) ''where'')),
                 (''when'', the (map_of (own p) ''when'')),
                 (''fact'', the (map_of (own p) ''fact''))] None)"
proof -
  obtain ps pr where p: "p = JSObj ps pr" by (cases p)
  have chk: "check_properties p EXPECTED_PROPERTIES = None"
    using assms by (simp add: check_properties_None)
  have mem: "''species'' \<in> set EXPECTED_PROPERTIES" "''weight'' \<in> set EXPECTED_PROPERTIES"
    "''height'' \<in> set EXPECTED_PROPERTIES" "''diet'' \<in> set EXPECTED_PROPERTIES"
    "''where'' \<in> set EXPECTED_PROPERTIES" "''when'' \<in> set EXPECTED_PROPERTIES"
    "''fact'' \<in> set EXPECTED_PROPERTIES"
    by (simp_all add: EXPECTED_PROPERTIES_def)
  have g: "Get p k = the (map_of ps k)" if "k \<in> set EXPECTED_PROPERTIES" for k
    using assms that unfolding p by (simp only: Get_own)
  have r: "Get (rest_properties [''species'', ''where'', ''when'', ''fact''] p) k = Get p k"
    if "k \<in> set EXPECTED_PROPERTIES" "k \<notin> set [''species'', ''where'', ''when'', ''fact'']" for k
  proof -
    from assms that(1) have "map_of ps k \<noteq> None" by (simp add: hasOwnProperty_def p)
    with that(2) show ?thesis
      unfolding Get_rest_properties by (auto simp: p)
  qed
  have a: "Animal (rest_properties [''species'', ''where'', ''when'', ''fact''] p) =
     JSObj [(''weight'', the (map_of ps ''weight'')), (''height'', the (map_of ps ''height'')),
            (''diet'', the (map_of ps ''diet''))] None"
    unfolding Animal_def by (simp add: r mem g)
  have o: "own p = ps" by (simp add: p)
  show ?thesis
    unfolding Dino_def chk Let_def a g [OF mem(1)] g [OF mem(5)] g [OF mem(6)] g [OF mem(7)] o
    by (simp add: Object_assign_def)
qed


lemma Dino_fields:
  assumes "\<forall>k\<in>set EXPECTED_PROPERTIES. hasOwnProperty p k"
  shows "Dino p =
     Inr (JSObj [(''weight'', Get p ''weight''), (''height'', Get p ''height''),
                 (''diet'', Get p ''diet''), (''species'', Get p ''species''),
                 (''where'', Get p ''where''), (''when'', Get p ''when''),
                 (''fact'', Get p ''fact'')] None)"
proof -
  obtain ps pr where p: "p = JSObj ps pr" by (cases p)
  have g: "the (map_of (own p) k) = Get p k" if "k \<in> set EXPECTED_PROPERTIES" for k
    using assms that unfolding p by (simp add: Get_own del: Get.simps)
  have mem: "''species'' \<in> set EXPECTED_PROPERTIES" "''weight'' \<in> set EXPECTED_PROPERTIES"
    "''height'' \<in> set EXPECTED_PROPERTIES" "''diet'' \<in> set EXPECTED_PROPERTIES"
    "''where'' \<in> set EXPECTED_PROPERTIES" "''when'' \<in> set EXPECTED_PROPERTIES"
    "''fact'' \<in> set EXPECTED_PROPERTIES"
    by (simp_all add: EXPECTED_PROPERTIES_def)
  show ?thesis
    unfolding Dino_success [OF assms] by (simp only: mem g)
qed

lemma hasOwnProperty_rest_properties:
  "hasOwnProperty (rest_properties named p) k \<longleftrightarrow> hasOwnProperty p k \<and> k \<notin> set named"
  by (auto simp: hasOwnProperty_def rest_properties_def map_of_filter_named)

section \<open>Rounding to binary64\<close>

lemma floor_log2_le:
  assumes "0 < a"
  shows "2 powi (floor_log2 a) \<le> a"
proof -
  obtain p d where pd: "quotient_of a = (p, d)" by (cases "quotient_of a")
  then have a: "a = of_int p / of_int d" and d: "0 < d"
    by (simp_all add: quotient_of_div quotient_of_denom_pos)
  with assms have p: "0 < p" by (simp add: zero_less_divide_iff)
  define k where "k = bitlen p - bitlen d"
  show ?thesis
  proof (cases "2 powi k \<le> a")
    case True
    then show ?thesis by (simp add: floor_log2_def pd k_def Let_def)
  next
    case False
    from bitlen_bounds [OF p] have lo: "2 ^ nat (bitlen p - 1) \<le> p" by simp
    from bitlen_bounds [OF d] have hi: "d < 2 ^ nat (bitlen d)" by simp
    from p have bp: "1 \<le> bitlen p" using bitlen_eq_zero_iff [of p] bitlen_nonneg [of p] by linarith
    have bd: "0 \<le> bitlen d" by (rule bitlen_nonneg)
    have "k - 1 = (bitlen p - 1) - bitlen d" by (simp add: k_def)
    then have "(2::rat) powi (k - 1) = 2 powi (bitlen p - 1) / 2 powi (bitlen d)"
      by (simp only: power_int_diff [of "2::rat", simplified])
    also have "(2::rat) powi (bitlen p - 1) = 2 ^ nat (bitlen p - 1)"
      using bp by (simp add: power_int_def)
    also have "(2::rat) powi (bitlen d) = 2 ^ nat (bitlen d)"
      using bd by (simp add: power_int_def)
    finally have e: "(2::rat) powi (k - 1) = 2 ^ nat (bitlen p - 1) / 2 ^ nat (bitlen d)" .
    have "(2::rat) ^ nat (bitlen p - 1) \<le> of_int p"
      using lo by (metis of_int_le_iff of_int_numeral of_int_power)
    moreover have "of_int d \<le> (2::rat) ^ nat (bitlen d)"
      using hi by (metis less_imp_le of_int_le_iff of_int_numeral of_int_power)
    moreover have "(0::rat) < of_int d" "(0::rat) \<le> of_int p" using d p by simp_all
    ultimately have "(2::rat) ^ nat (bitlen p - 1) / 2 ^ nat (bitlen d) \<le> of_int p / of_int d"
      by (intro frac_le) simp_all
    with e a have "2 powi (k - 1) \<le> a" by simp
    with False show ?thesis by (simp add: floor_log2_def pd k_def Let_def)
  qed
qed

lemma round_half_even_bounds:
  "\<lfloor>t\<rfloor> \<le> round_half_even t" "round_half_even t \<le> \<lfloor>t\<rfloor> + 1"
  by (simp_all add: round_half_even_def Let_def)

lemma ulp_le:
  assumes "1 / 2 ^ 1074 \<le> a"
  shows "2 powi (max (floor_log2 a) (- 1022) - 52) \<le> a"
proof (cases "floor_log2 a \<le> - 1022")
  case True
  then have "max (floor_log2 a) (- 1022) - 52 = - 1074" by simp
  moreover have "(2::rat) powi (- 1074) = inverse (2 powi 1074)" by (rule power_int_minus)
  moreover have "(2::rat) powi 1074 = 2 ^ 1074" by (rule power_int_numeral)
  ultimately have "(2::rat) powi (max (floor_log2 a) (- 1022) - 52) = 1 / 2 ^ 1074"
    by (simp only: inverse_eq_divide)
  with assms show ?thesis by (simp only:)
next
  case False
  have pos: "0 < a" using assms by (rule less_le_trans [rotated]) simp
  from False have "max (floor_log2 a) (- 1022) - 52 \<le> floor_log2 a" by simp
  then have "(2::rat) powi (max (floor_log2 a) (- 1022) - 52) \<le> 2 powi (floor_log2 a)"
    by (intro power_int_increasing) simp_all
  also have "\<dots> \<le> a" using pos by (rule floor_log2_le)
  finally show ?thesis .
qed

lemma round_binary64_positive:
  assumes "1 / 2 ^ 1074 \<le> q"
  shows "num_less (Fin 0) (round_binary64 q)"
proof -
  have pos: "0 < q" using assms by (rule less_le_trans [rotated]) simp
  define ulp :: rat where "ulp = 2 powi (max (floor_log2 \<bar>q\<bar>) (- 1022) - 52)"
  define n where "n = round_half_even (\<bar>q\<bar> / ulp)"
  have u: "0 < ulp" by (simp add: ulp_def)
  have "ulp \<le> \<bar>q\<bar>" unfolding ulp_def using assms pos by (intro ulp_le) simp
  then have "1 \<le> \<bar>q\<bar> / ulp" using u by (simp add: le_divide_eq)
  then have "1 \<le> \<lfloor>\<bar>q\<bar> / ulp\<rfloor>" by (simp add: le_floor_iff)
  with round_half_even_bounds(1) [of "\<bar>q\<bar> / ulp"] have n: "1 \<le> n" unfolding n_def by linarith
  then have r: "0 < of_int n * ulp" using u by simp
  have "round_binary64 q =
      (if 2 ^ 1024 \<le> of_int n * ulp then PInf else Fin (of_int n * ulp))"
    using n pos unfolding round_binary64_def Let_def ulp_def [symmetric] n_def [symmetric]
    by (simp add: inf_of_def)
  with r show ?thesis by (simp add: num_less_def finite_value_def)
qed

lemma round_binary64_negative:
  assumes "q \<le> - (1 / 2 ^ 1074)"
  shows "num_less (round_binary64 q) (Fin 0)"
proof -
  have neg: "q < 0" using assms by (rule le_less_trans) simp
  define ulp :: rat where "ulp = 2 powi (max (floor_log2 \<bar>q\<bar>) (- 1022) - 52)"
  define n where "n = round_half_even (\<bar>q\<bar> / ulp)"
  have u: "0 < ulp" by (simp add: ulp_def)
  have "1 / 2 ^ 1074 \<le> \<bar>q\<bar>" using assms neg by simp
  then have "ulp \<le> \<bar>q\<bar>" unfolding ulp_def by (rule ulp_le)
  then have "1 \<le> \<bar>q\<bar> / ulp" using u by (simp add: le_divide_eq)
  then have "1 \<le> \<lfloor>\<bar>q\<bar> / ulp\<rfloor>" by (simp add: le_floor_iff)
  with round_half_even_bounds(1) [of "\<bar>q\<bar> / ulp"] have n: "1 \<le> n" unfolding n_def by linarith
  then have r: "0 < of_int n * ulp" using u by simp
  have "round_binary64 q =
      (if 2 ^ 1024 \<le> of_int n * ulp then NInf else Fin (- (of_int n * ulp)))"
    using n neg unfolding round_binary64_def Let_def ulp_def [symmetric] n_def [symmetric]
    by (simp add: inf_of_def)
  with r show ?thesis by (simp add: num_less_def finite_value_def)
qed


lemma round_binary64_within_five:
  assumes "0 < q" "q < 5"
  shows "\<exists>r. round_binary64 q = Fin r \<and> 0 \<le> r \<and> r \<le> 5"
proof -
  define e where "e = max (floor_log2 \<bar>q\<bar>) (- 1022)"
  define ulp :: rat where "ulp = 2 powi (e - 52)"
  define n where "n = round_half_even (\<bar>q\<bar> / ulp)"
  define M :: int where "M = 5 * 2 ^ nat (52 - e)"
  have a: "\<bar>q\<bar> = q" using assms by simp
  have u: "0 < ulp" by (simp add: ulp_def)
  have "(2::rat) powi (floor_log2 q) \<le> q" using assms(1) by (rule floor_log2_le)
  also have "q < 2 powi 3" using assms(2) by simp
  finally have "floor_log2 q < 3"
    by (rule power_int_le_imp_less_exp [rotated]) simp_all
  then have e: "e \<le> 2" by (simp add: e_def a)
  then have "(2::rat) powi (52 - e) = 2 ^ nat (52 - e)" by (simp add: power_int_def)
  then have M: "of_int M = 5 * (2::rat) powi (52 - e)" by (simp add: M_def)
  have "(2::rat) powi (52 - e) * 2 powi (e - 52) = 2 powi ((52 - e) + (e - 52))"
    by (rule power_int_add [symmetric]) simp
  then have one: "(2::rat) powi (52 - e) * ulp = 1" by (simp add: ulp_def)
  have Mu: "of_int M * ulp = 5"
    unfolding M using one by (simp add: mult.assoc)
  have "q / ulp < of_int M"
    using assms(2) u Mu by (simp add: divide_less_eq)
  then have "\<lfloor>q / ulp\<rfloor> < M" by (simp add: floor_less_iff)
  with round_half_even_bounds(2) [of "q / ulp"] have nM: "n \<le> M"
    unfolding n_def a by linarith
  have "0 \<le> q / ulp" using assms(1) u by simp
  then have "0 \<le> \<lfloor>q / ulp\<rfloor>" by simp
  with round_half_even_bounds(1) [of "q / ulp"] have n0: "0 \<le> n"
    unfolding n_def a by linarith
  have "of_int n * ulp \<le> of_int M * ulp"
    using nM u by (intro mult_right_mono) simp_all
  then have r5: "of_int n * ulp \<le> 5" by (simp only: Mu)
  have r0: "0 \<le> of_int n * ulp" using n0 u by simp
  have small: "\<not> 2 ^ 1024 \<le> of_int n * ulp"
  proof
    assume "2 ^ 1024 \<le> of_int n * ulp"
    from this r5 have "(2::rat) ^ 1024 \<le> 5" by (rule order_trans)
    moreover have "(2::rat) ^ 3 \<le> 2 ^ 1024" by (rule power_increasing) simp_all
    ultimately show False by simp
  qed
  have "round_binary64 q = (if n = 0 then Fin 0 else Fin (of_int n * ulp))"
    using assms(1) small
    unfolding round_binary64_def Let_def e_def [symmetric] ulp_def [symmetric] n_def [symmetric]
    by (simp add: zero_of_def)
  with r0 r5 show ?thesis by auto
qed

lemma rounds_to_nearest_sample_runtime: "rounds_to_nearest sample_runtime"
proof -
  have "round64 sample_runtime = round_binary64" by (simp add: sample_runtime_def)
  then show ?thesis
    unfolding rounds_to_nearest_def
    using round_binary64_positive round_binary64_negative round_binary64_within_five
    by (simp only:) blast
qed

lemma grid_difference:
  assumes "binary64_grid a" "binary64_grid b" "a < b"
  shows "1 / 2 ^ 1074 \<le> b - a"
proof -
  define c :: rat where "c = 2 ^ 1074"
  have c: "0 < c" unfolding c_def by (rule zero_less_power) simp
  have ga: "of_int \<lfloor>a * c\<rfloor> = a * c" using assms(1) unfolding binary64_grid_def c_def .
  have gb: "of_int \<lfloor>b * c\<rfloor> = b * c" using assms(2) unfolding binary64_grid_def c_def .
  define m where "m = \<lfloor>b * c\<rfloor> - \<lfloor>a * c\<rfloor>"
  have "of_int m = rat_of_int \<lfloor>b * c\<rfloor> - of_int \<lfloor>a * c\<rfloor>" by (simp only: m_def of_int_diff)
  also have "\<dots> = b * c - a * c" by (simp only: ga gb)
  also have "\<dots> = (b - a) * c" by (simp only: left_diff_distrib)
  finally have m: "of_int m = (b - a) * c" .
  have "0 < (b - a) * c" using assms(3) c by simp
  then have "(0::rat) < of_int m" by (simp only: m)
  then have "1 \<le> m" by simp
  then have "(1::rat) \<le> of_int m" by simp
  then have "1 \<le> (b - a) * c" by (simp only: m)
  then have "1 / c \<le> b - a" using c by (simp add: divide_le_eq)
  then show ?thesis unfolding c_def .
qed

lemma floor_log2_less:
  assumes "0 < a"
  shows "a < 2 powi (floor_log2 a + 1)"
proof -
  obtain p d where pd: "quotient_of a = (p, d)" by (cases "quotient_of a")
  then have a: "a = of_int p / of_int d" and d: "0 < d"
    by (simp_all add: quotient_of_div quotient_of_denom_pos)
  with assms have p: "0 < p" by (simp add: zero_less_divide_iff)
  define k where "k = bitlen p - bitlen d"
  show ?thesis
  proof (cases "2 powi k \<le> a")
    case False
    then show ?thesis by (simp add: floor_log2_def pd k_def Let_def)
  next
    case True
    from bitlen_bounds [OF p] have hi: "p < 2 ^ nat (bitlen p)" by simp
    from bitlen_bounds [OF d] have lo: "2 ^ nat (bitlen d - 1) \<le> d" by simp
    from d have bd: "1 \<le> bitlen d" using bitlen_eq_zero_iff [of d] bitlen_nonneg [of d] by linarith
    have bp: "0 \<le> bitlen p" by (rule bitlen_nonneg)
    have "k + 1 = bitlen p - (bitlen d - 1)" by (simp add: k_def)
    then have "(2::rat) powi (k + 1) = 2 powi (bitlen p) / 2 powi (bitlen d - 1)"
      by (simp only: power_int_diff [of "2::rat", simplified])
    also have "(2::rat) powi (bitlen p) = 2 ^ nat (bitlen p)"
      using bp by (simp add: power_int_def)
    also have "(2::rat) powi (bitlen d - 1) = 2 ^ nat (bitlen d - 1)"
      using bd by (simp add: power_int_def)
    finally have e: "(2::rat) powi (k + 1) = 2 ^ nat (bitlen p) / 2 ^ nat (bitlen d - 1)" .
    have "of_int p < (2::rat) ^ nat (bitlen p)"
      using hi by (metis of_int_less_iff of_int_numeral of_int_power)
    moreover have "(2::rat) ^ nat (bitlen d - 1) \<le> of_int d"
      using lo by (metis of_int_le_iff of_int_numeral of_int_power)
    moreover have "(0::rat) < 2 ^ nat (bitlen d - 1)" "(0::rat) \<le> of_int p" using p by simp_all
    ultimately have "of_int p / of_int d < (2::rat) ^ nat (bitlen p) / 2 ^ nat (bitlen d - 1)"
      by (intro frac_less) simp_all
    with e a have "a < 2 powi (k + 1)" by simp
    with True show ?thesis by (simp add: floor_log2_def pd k_def Let_def)
  qed
qed

lemma powi_less_exp:
  assumes "(2::rat) powi m < 2 powi n"
  shows "m < n"
proof (rule ccontr)
  assume "\<not> m < n"
  then have "n \<le> m" by simp
  then have "(2::rat) powi n \<le> 2 powi m" by (rule power_int_increasing) simp
  with assms show False by simp
qed

lemma floor_log2_unique:
  assumes "2 powi e \<le> a" "a < 2 powi (e + 1)"
  shows "floor_log2 a = e"
proof -
  have "(0::rat) < 2 powi e" by simp
  from this assms(1) have pos: "0 < a" by (rule less_le_trans)
  have "(2::rat) powi (floor_log2 a) \<le> a" using pos by (rule floor_log2_le)
  also note assms(2)
  finally have 1: "floor_log2 a < e + 1"
    by (rule powi_less_exp)
  note assms(1)
  also have "a < 2 powi (floor_log2 a + 1)" using pos by (rule floor_log2_less)
  finally have 2: "e < floor_log2 a + 1"
    by (rule powi_less_exp)
  from 1 2 show ?thesis by simp
qed

lemma round_binary64_eval:
  assumes "2 powi e \<le> q" "q < 2 powi (e + 1)" "- 1022 \<le> e" "e < 1023"
  shows "round_binary64 q =
    Fin (of_int (round_half_even (q / 2 powi (e - 52))) * 2 powi (e - 52))"
proof -
  define ulp :: rat where "ulp = 2 powi (e - 52)"
  define n where "n = round_half_even (q / ulp)"
  define M :: int where "M = 2 ^ 53"
  have "(0::rat) < 2 powi e" by simp
  from this assms(1) have pos: "0 < q" by (rule less_le_trans)
  then have a: "\<bar>q\<bar> = q" by simp
  have "floor_log2 q = e" using assms(1,2) by (rule floor_log2_unique)
  with assms(3) have fl: "max (floor_log2 q) (- 1022) = e" by simp
  have u: "0 < ulp" by (simp add: ulp_def)
  have "(2::rat) powi 52 * 2 powi (e - 52) = 2 powi (52 + (e - 52))"
    by (rule power_int_add [symmetric]) simp
  then have lo: "(2::rat) powi 52 * ulp = 2 powi e" by (simp add: ulp_def)
  have "(2::rat) powi 53 * 2 powi (e - 52) = 2 powi (53 + (e - 52))"
    by (rule power_int_add [symmetric]) simp
  then have hi: "(2::rat) powi 53 * ulp = 2 powi (e + 1)" by (simp add: ulp_def add.commute)
  have M: "of_int M = (2::rat) powi 53" by (simp add: M_def)
  have "(1::rat) \<le> 2 powi 52" by simp
  also have "(2::rat) powi 52 \<le> q / ulp"
    using assms(1) u by (simp only: le_divide_eq lo) simp
  finally have "1 \<le> \<lfloor>q / ulp\<rfloor>" by (simp add: le_floor_iff)
  with round_half_even_bounds(1) [of "q / ulp"] have n1: "1 \<le> n"
    unfolding n_def by linarith
  have "q / ulp < of_int M"
    using assms(2) u unfolding M by (simp only: divide_less_eq hi) simp
  then have "\<lfloor>q / ulp\<rfloor> < M" by (simp add: floor_less_iff)
  with round_half_even_bounds(2) [of "q / ulp"] have nM: "n \<le> M"
    unfolding n_def by linarith
  have "of_int n * ulp \<le> of_int M * ulp"
    using nM u by (intro mult_right_mono) simp_all
  also have "of_int M * ulp = 2 powi (e + 1)" by (simp only: M hi)
  also have "(2::rat) powi (e + 1) \<le> 2 powi 1023"
    using assms(4) by (intro power_int_increasing) simp_all
  also have "(2::rat) powi 1023 < 2 powi 1024"
    by (rule power_int_strict_increasing) simp_all
  also have "(2::rat) powi 1024 = 2 ^ 1024" by (rule power_int_numeral)
  finally have small: "\<not> 2 ^ 1024 \<le> of_int n * ulp" by (simp only: not_le)
  have "round_binary64 q = Fin (of_int n * ulp)"
    using pos small n1
    unfolding round_binary64_def Let_def fl a ulp_def [symmetric] n_def [symmetric]
    by (simp add: zero_of_def)
  then show ?thesis by (simp only: n_def ulp_def)
qed

lemma floor_numeral_quotient [simp]:
  fixes a b :: num
  shows "\<lfloor>(numeral a :: rat) / numeral b\<rfloor> = numeral a div numeral b"
proof -
  have "\<lfloor>rat_of_int (numeral a) / rat_of_int (numeral b)\<rfloor> = numeral a div numeral b"
    by (rule floor_divide_of_int_eq)
  then show ?thesis by simp
qed

lemma floor_neg_numeral_quotient [simp]:
  fixes a b :: num
  shows "\<lfloor>- ((numeral a :: rat) / numeral b)\<rfloor> = - numeral a div numeral b"
proof -
  have "\<lfloor>rat_of_int (- numeral a) / rat_of_int (numeral b)\<rfloor> = - numeral a div numeral b"
    by (rule floor_divide_of_int_eq)
  then show ?thesis by simp
qed

section \<open>Tiles: helper facts\<close>

lemma num_mul_draw:
  "num_mul rt (Fin u) (Fin 5) = (if u = 0 then Fin 0 else round64 rt (u * 5))"
  by (simp add: num_mul_def finite_value_def zero_of_def negative_def)

lemma tile_index_range:
  assumes "rounds_to_nearest rt" "0 \<le> u" "u < 1"
  shows "\<exists>n<6. tile_index rt u = Fin (of_nat n)"
proof -
  have "\<exists>r. num_mul rt (Fin u) (Fin 5) = Fin r \<and> 0 \<le> r \<and> r \<le> 5"
  proof (cases "u = 0")
    case True
    then show ?thesis by (simp add: num_mul_draw)
  next
    case False
    with assms(2,3) have "0 < u * 5 \<and> u * 5 < 5" by simp
    with assms(1) have "\<exists>r. round64 rt (u * 5) = Fin r \<and> 0 \<le> r \<and> r \<le> 5"
      unfolding rounds_to_nearest_def by blast
    with False show ?thesis by (simp add: num_mul_draw)
  qed
  then obtain r where r: "num_mul rt (Fin u) (Fin 5) = Fin r" "0 \<le> r" "r \<le> 5" by blast
  define k where "k = \<lfloor>r + 1 / 2\<rfloor>"
  have "0 \<le> r + 1 / 2" "r + 1 / 2 < 6" using r(2,3) by simp_all
  then have "0 \<le> k" "k < 6" unfolding k_def by (simp_all add: floor_less_iff)
  then have "nat k < 6" "(of_int k :: rat) = of_nat (nat k)" by simp_all
  moreover have "tile_index rt u = Fin (of_int k)"
    using r(2) by (simp add: tile_index_def r(1) k_def)
  ultimately show ?thesis by metis
qed

lemma array_get_nat: "n < length xs \<Longrightarrow> array_get xs (Fin (of_nat n)) = xs ! n"
  by (simp add: array_get_def finite_value_def)

lemma length_facts_of: "length (facts_of rt human other) = 6"
  by (simp add: facts_of_def)

lemma getTileHTML_human:
  "getTileHTML rt human [] g =
     Inr (generateTileHTML rt (Get human ''name'') (Str []) (Str ''human''), g)"
  by (simp add: getTileHTML_def)

lemma getTileHTML_Pigeon:
  "Get d ''species'' = Str ''Pigeon'' \<Longrightarrow>
   getTileHTML rt human [Some d] g =
     Inr (generateTileHTML rt (Str ''Pigeon'') (Get d ''fact'') Undefined, g)"
  by (simp add: getTileHTML_def)

lemma getTileHTML_dino:
  assumes "Get d ''species'' \<noteq> Str ''Pigeon''" "rounds_to_nearest rt" "0 \<le> g 0" "g 0 < 1"
  shows "\<exists>f\<in>set (facts_of rt human d).
           getTileHTML rt human [Some d] g =
             Inr (generateTileHTML rt (Get d ''species'') f Undefined, \<lambda>n. g (Suc n))"
proof -
  from tile_index_range [OF assms(2,3,4)] obtain n where
    n: "n < 6" "tile_index rt (g 0) = Fin (of_nat n)" by blast
  then have a: "array_get (facts_of rt human d) (tile_index rt (g 0)) = facts_of rt human d ! n"
    by (simp add: array_get_nat length_facts_of)
  have m: "facts_of rt human d ! n \<in> set (facts_of rt human d)"
    using n(1) by (simp add: length_facts_of)
  have "getTileHTML rt human [Some d] g =
          Inr (generateTileHTML rt (Get d ''species'') (facts_of rt human d ! n) Undefined,
               \<lambda>n. g (Suc n))"
    using assms(1) by (simp add: getTileHTML_def Math_random_def Let_def a)
  with m show ?thesis by blast
qed

lemma generateTileHTML_markup:
  "generateTileHTML rt caption body Undefined =
     tile_markup (ToString rt caption) (ToString rt caption) (paragraph_of rt body)"
proof -
  have "\<not> ToBoolean Undefined" "\<not> ToBoolean Null" by (simp_all add: ToBoolean_def)
  then show ?thesis by (simp add: generateTileHTML_def Let_def)
qed

lemma getTileHTML_tile:
  assumes "unit_draws g" "rounds_to_nearest rt"
  shows "\<exists>t g'. getTileHTML rt human [Some d] g = Inr (t, g') \<and> dino_tile rt human d t \<and>
           unit_draws g'"
proof (cases "Get d ''species'' = Str ''Pigeon''")
  case True
  have "ToString rt (Str ''Pigeon'') = ''Pigeon''" by (simp add: ToString_def)
  with True assms(1) show ?thesis
    by (simp add: getTileHTML_Pigeon generateTileHTML_markup)
next
  case False
  from assms(1) have "0 \<le> g 0" "g 0 < 1" by simp_all
  from getTileHTML_dino [where g = g and d = d and rt = rt and human = human,
      OF False assms(2) this]
  obtain f where f: "f \<in> set (facts_of rt human d)"
    "getTileHTML rt human [Some d] g =
       Inr (generateTileHTML rt (Get d ''species'') f Undefined, \<lambda>n. g (Suc n))"
    by blast
  from f(1) have c: "f \<in> set [Str (''Location: '' @ ToString rt (Get d ''where'')),
                         Str (''When I lived: '' @ ToString rt (Get d ''when'')),
                         Get d ''fact'',
                         Str (compareDiet d human),
                         Str (compareHeights rt d human),
                         Str (compareWeights rt d human)]"
    by (simp only: facts_of_def)
  have u: "unit_draws (\<lambda>n. g (Suc n))" using assms(1) by simp
  have t: "dino_tile rt human d (generateTileHTML rt (Get d ''species'') f Undefined)"
    unfolding generateTileHTML_markup using False c
    by (simp only: if_False) (rule bexI [where x = f], rule refl)
  show ?thesis
    by (intro exI conjI) (rule f(2) t u)+
qed

lemma add_dino_tiles_tiles:
  assumes "hi \<le> length dinos"
    and tile: "\<And>d g. unit_draws g \<Longrightarrow>
      \<exists>t g'. getTileHTML rt human [Some d] g = Inr (t, g') \<and> P d t \<and> unit_draws g'"
  shows "i \<le> hi \<Longrightarrow> unit_draws (random pg) \<Longrightarrow>
     \<exists>ts pg'. add_dino_tiles rt dinos human i hi pg = (None, pg') \<and>
       length ts = hi - i \<and> innerHTML pg' = innerHTML pg @ concat ts \<and>
       unit_draws (random pg') \<and>
       (\<forall>j<hi - i. P (dinos ! (i + j)) (ts ! j))"
proof (induction "hi - i" arbitrary: i pg)
  case 0
  then have "add_dino_tiles rt dinos human i hi pg = (None, pg)"
    by (simp add: add_dino_tiles.simps)
  with 0 show ?case by (intro exI [of _ "[]"] exI [of _ pg]) simp
next
  case (Suc m)
  then have lt: "i < hi" and at: "dinos_at dinos i = Some (dinos ! i)"
    using assms(1) by (simp_all add: dinos_at_def)
  from tile [OF Suc.prems(2), of "dinos ! i"] obtain t g' where
    t: "getTileHTML rt human [Some (dinos ! i)] (random pg) = Inr (t, g')"
      "P (dinos ! i) t" "unit_draws g'" by blast
  let ?pg = "pg\<lparr>innerHTML := innerHTML pg @ t, random := g'\<rparr>"
  have step: "add_dino_tiles rt dinos human i hi pg = add_dino_tiles rt dinos human (Suc i) hi ?pg"
    using lt by (subst add_dino_tiles.simps) (simp add: at t(1))
  have "m = hi - Suc i" "Suc i \<le> hi" "unit_draws (random ?pg)"
    using Suc.hyps(2) lt t(3) by simp_all
  from Suc.hyps(1) [OF this] obtain ts pg' where
    r: "add_dino_tiles rt dinos human (Suc i) hi ?pg = (None, pg')"
      "length ts = hi - Suc i" "innerHTML pg' = innerHTML ?pg @ concat ts"
      "unit_draws (random pg')"
      "\<forall>j<hi - Suc i. P (dinos ! (Suc i + j)) (ts ! j)" by blast
  have "\<forall>j<hi - i. P (dinos ! (i + j)) ((t # ts) ! j)"
  proof (intro allI impI)
    fix j assume j: "j < hi - i"
    show "P (dinos ! (i + j)) ((t # ts) ! j)"
    proof (cases j)
      case 0
      with t(2) show ?thesis by simp
    next
      case (Suc j')
      with j have "j' < hi - Suc i" by simp
      with r(5) have "P (dinos ! (Suc i + j')) (ts ! j')" by blast
      moreover have "Suc i + j' = i + j" "(t # ts) ! j = ts ! j'" using Suc by simp_all
      ultimately show ?thesis by (simp only:)
    qed
  qed
  moreover have "length (t # ts) = hi - i" using r(2) lt by simp
  moreover have "innerHTML pg' = innerHTML pg @ concat (t # ts)" using r(3) by simp
  ultimately show ?case
    using step r(1) r(4) by (intro exI [of _ "t # ts"] exI [of _ pg']) (simp only:, blast)
qed

lemma addTiles_tiles:
  assumes "8 \<le> length dinos" "unit_draws (random pg)"
    and tile: "\<And>d g. unit_draws g \<Longrightarrow>
      \<exists>t g'. getTileHTML rt human [Some d] g = Inr (t, g') \<and> P d t \<and> unit_draws g'"
  shows "\<exists>ts pg'. addTiles rt dinos human pg = (None, pg') \<and> length ts = 9 \<and>
     innerHTML pg' = innerHTML pg @ concat ts \<and>
     ts ! 4 = generateTileHTML rt (Get human ''name'') (Str []) (Str ''human'') \<and>
     (\<forall>i<4. P (dinos ! i) (ts ! i)) \<and>
     (\<forall>i\<in>{4..<8}. P (dinos ! i) (ts ! Suc i))"
proof -
  from assms(1) have len: "4 \<le> length dinos" by simp
  have e: "(4::nat) - 0 = 4" "(8::nat) - 4 = 4" "(4::nat) \<le> 8" by simp_all
  from add_dino_tiles_tiles [of 4 dinos rt human P 0 pg, OF len tile le0 assms(2), unfolded e add_0]
  obtain ts1 pg1 where
    a: "add_dino_tiles rt dinos human 0 4 pg = (None, pg1)" "length ts1 = 4"
      "innerHTML pg1 = innerHTML pg @ concat ts1" "unit_draws (random pg1)"
      "\<forall>j<4. P (dinos ! j) (ts1 ! j)" by blast
  let ?h = "generateTileHTML rt (Get human ''name'') (Str []) (Str ''human'')"
  let ?pg = "pg1\<lparr>innerHTML := innerHTML pg1 @ ?h, random := random pg1\<rparr>"
  from a(4) have "unit_draws (random ?pg)" by simp
  from add_dino_tiles_tiles [of 8 dinos rt human P 4 ?pg, OF assms(1) tile e(3) this, unfolded e]
  obtain ts2 pg2 where
    b: "add_dino_tiles rt dinos human 4 8 ?pg = (None, pg2)" "length ts2 = 4"
      "innerHTML pg2 = innerHTML ?pg @ concat ts2"
      "\<forall>j<4. P (dinos ! (4 + j)) (ts2 ! j)" by blast
  let ?ts = "ts1 @ ?h # ts2"
  have 1: "addTiles rt dinos human pg = (None, pg2)"
    using b(1) by (simp add: addTiles_def a(1) getTileHTML_human)
  have 2: "length ?ts = 9" by (simp add: a(2) b(2))
  have 3: "innerHTML pg2 = innerHTML pg @ concat ?ts" by (simp add: a(3) b(3))
  have 4: "?ts ! 4 = ?h" using a(2) by (simp add: nth_append)
  have 5: "\<forall>i<4. P (dinos ! i) (?ts ! i)"
  proof (intro allI impI)
    fix i :: nat assume i: "i < 4"
    then have "?ts ! i = ts1 ! i" using a(2) by (simp add: nth_append)
    moreover from a(5) i have "P (dinos ! i) (ts1 ! i)" by blast
    ultimately show "P (dinos ! i) (?ts ! i)" by (simp only:)
  qed
  have 6: "\<forall>i\<in>{4..<8}. P (dinos ! i) (?ts ! Suc i)"
  proof
    fix i :: nat assume "i \<in> {4..<8}"
    then obtain j where j: "i = 4 + j" "j < 4" by (auto simp: le_iff_add)
    then have "?ts ! Suc i = ts2 ! j" using a(2) by (simp add: nth_append)
    moreover from b(4) j have "P (dinos ! (4 + j)) (ts2 ! j)" by blast
    ultimately show "P (dinos ! i) (?ts ! Suc i)" using j(1) by (simp only:)
  qed
  from 1 2 3 4 5 6 show ?thesis by (intro exI [of _ ?ts] exI [of _ pg2] conjI)
qed

lemma getTileHTML_no_exn: "\<exists>t g'. getTileHTML rt human [Some d] g = Inr (t, g')"
  by (simp add: getTileHTML_def Let_def split: prod.splits)

lemma add_dino_tiles_no_exn:
  assumes "hi \<le> length dinos"
  shows "fst (add_dino_tiles rt dinos human i hi pg) = None"
proof (induction "hi - i" arbitrary: i pg)
  case 0
  then show ?case by (simp add: add_dino_tiles.simps)
next
  case (Suc m)
  then have lt: "i < hi" and at: "dinos_at dinos i = Some (dinos ! i)"
    using assms by (simp_all add: dinos_at_def)
  from getTileHTML_no_exn [of rt human "dinos ! i" "random pg"] obtain t g' where
    t: "getTileHTML rt human [Some (dinos ! i)] (random pg) = Inr (t, g')" by blast
  have "add_dino_tiles rt dinos human i hi pg =
      add_dino_tiles rt dinos human (Suc i) hi (pg\<lparr>innerHTML := innerHTML pg @ t, random := g'\<rparr>)"
    using lt by (subst add_dino_tiles.simps) (simp add: at t)
  moreover have "m = hi - Suc i" using Suc.hyps(2) by simp
  ultimately show ?case using Suc.hyps(1) by simp
qed

lemma addTiles_no_exn:
  assumes "8 \<le> length dinos"
  shows "fst (addTiles rt dinos human pg) = None"
proof -
  from assms have 4: "4 \<le> length dinos" by simp
  obtain e pg1 where a: "add_dino_tiles rt dinos human 0 4 pg = (e, pg1)" by (cases "add_dino_tiles rt dinos human 0 4 pg")
  with add_dino_tiles_no_exn [OF 4, of rt human 0 pg] have e: "e = None" by simp
  show ?thesis
    using add_dino_tiles_no_exn [OF assms, of rt human 4]
    by (simp add: addTiles_def a e getTileHTML_human)
qed

section \<open>Errors\<close>

text \<open>
  C4. \<open>Dino\<close> tests the seven names species, weight, height, diet, where, when, fact in
  this order. It returns an entity exactly when each is an own property of the record;
  otherwise it throws at the first name that is not, with an error that ends with that
  name, and there is no entity. The prototype of the record plays no part: a property
  that the record only inherits is missing. The error is not caught when the script
  builds its array of dinosaurs, the first one ends the loading. No other operation
  throws: \<open>Animal\<close>, \<open>Human\<close> and the three comparisons are total functions on
  objects, a tile is returned for a human alone and for a human and a dinosaur, and
  \<open>addTiles\<close> completes when the array holds the eight dinosaurs it reads.
\<close>

theorem Dino_missing_attribute:
  "EXPECTED_PROPERTIES =
     [''species'', ''weight'', ''height'', ''diet'', ''where'', ''when'', ''fact''] \<and>
   ((\<exists>d. Dino p = Inr d) \<longleftrightarrow> (\<forall>k\<in>set EXPECTED_PROPERTIES. hasOwnProperty p k)) \<and>
   (EXPECTED_PROPERTIES = pre @ k # post \<and> (\<forall>x\<in>set pre. hasOwnProperty p x) \<and>
      \<not> hasOwnProperty p k \<longrightarrow>
      Dino p = Inl (Error (''Missing required Dinosaur property: '' @ k))) \<and>
   (Dino p = Inl e \<longrightarrow>
      (\<exists>pre k post. EXPECTED_PROPERTIES = pre @ k # post \<and>
         (\<forall>x\<in>set pre. hasOwnProperty p x) \<and> \<not> hasOwnProperty p k \<and>
         e = Error (''Missing required Dinosaur property: '' @ k))) \<and>
   Dino (JSObj (own p) q) = Dino p \<and>
   ((\<forall>x\<in>set vs. \<exists>d. Dino x = Inr d) \<and> Dino p = Inl e \<longrightarrow>
      load_dinos acc (vs @ p # ws) = Inl e) \<and>
   (\<exists>t. getTileHTML rt human [] g = Inr (t, g)) \<and>
   (\<exists>t g'. getTileHTML rt human [Some d] g = Inr (t, g')) \<and>
   (8 \<le> length dinos \<longrightarrow> fst (addTiles rt dinos human pg) = None)"
proof -
  have 1: "(\<exists>d. Dino p = Inr d) \<longleftrightarrow> (\<forall>k\<in>set EXPECTED_PROPERTIES. hasOwnProperty p k)"
    using check_properties_None [of p EXPECTED_PROPERTIES]
    by (auto simp: Dino_def Let_def split: option.splits)
  have 2: "Dino p = Inl (Error (''Missing required Dinosaur property: '' @ k))"
    if "EXPECTED_PROPERTIES = pre @ k # post" "\<forall>x\<in>set pre. hasOwnProperty p x"
      "\<not> hasOwnProperty p k"
    using check_properties_first_missing [OF that(2,3), of post] that(1)
    by (simp add: Dino_def)
  have 3: "\<exists>pre k post. EXPECTED_PROPERTIES = pre @ k # post \<and>
         (\<forall>x\<in>set pre. hasOwnProperty p x) \<and> \<not> hasOwnProperty p k \<and>
         e = Error (''Missing required Dinosaur property: '' @ k)" if "Dino p = Inl e"
  proof -
    from that have "check_properties p EXPECTED_PROPERTIES = Some e"
      by (simp add: Dino_def Let_def split: option.splits)
    then show ?thesis by (rule check_properties_SomeD)
  qed
  have 4: "Dino (JSObj (own p) q) = Dino p"
    using Dino_own [of "own p" q] Dino_own [of "own p" "proto p"] by simp
  have 5: "load_dinos acc (vs @ p # ws) = Inl e"
    if "\<forall>x\<in>set vs. \<exists>d. Dino x = Inr d" "Dino p = Inl e"
    using that by (rule load_dinos_error)
  have 6: "\<exists>t. getTileHTML rt human [] g = Inr (t, g)"
    by (simp add: getTileHTML_human)
  have 7: "\<exists>t g'. getTileHTML rt human [Some d] g = Inr (t, g')"
    by (rule getTileHTML_no_exn)
  have 8: "fst (addTiles rt dinos human pg) = None" if "8 \<le> length dinos"
    using that by (rule addTiles_no_exn)
  show ?thesis
    using 1 2 3 4 5 6 7 8 by (simp only: EXPECTED_PROPERTIES_def) blast
qed


theorem Dino_missing_attribute_witness:
  "\<not> hasOwnProperty homeless ''where'' \<and> Get homeless ''where'' = Str ''North America'' \<and>
   Dino homeless = Inl (Error ''Missing required Dinosaur property: where'') \<and>
   (\<exists>d. Dino trex = Inr d) \<and>
   load_dinos [] [trex, homeless, stego] =
     Inl (Error ''Missing required Dinosaur property: where'') \<and>
   8 \<le> length sample_data \<and>
   fst (addTiles sample_runtime sample_data ann \<lparr>innerHTML = [], random = (\<lambda>n. 0)\<rparr>) = None"
proof -
  have own: "\<forall>x\<in>set [''species'', ''weight'', ''height'', ''diet'']. hasOwnProperty homeless x"
    "\<not> hasOwnProperty homeless ''where''" "Get homeless ''where'' = Str ''North America''"
    by (simp_all add: hasOwnProperty_def homeless_def)
  have t: "\<forall>k\<in>set EXPECTED_PROPERTIES. hasOwnProperty trex k"
    by (simp add: EXPECTED_PROPERTIES_def hasOwnProperty_def trex_def)
  have l: "8 \<le> length sample_data" by (simp add: sample_data_def)
  note inst = Dino_missing_attribute [where p = homeless
      and pre = "[''species'', ''weight'', ''height'', ''diet'']" and k = "''where''"
      and post = "[''when'', ''fact'']" and vs = "[trex]" and ws = "[stego]" and acc = "[]"
      and e = "Error ''Missing required Dinosaur property: where''"
      and dinos = sample_data and rt = sample_runtime and human = ann
      and pg = "\<lparr>innerHTML = [], random = (\<lambda>n. 0)\<rparr>"]
  from inst own have d: "Dino homeless = Inl (Error ''Missing required Dinosaur property: where'')"
    by simp
  from Dino_missing_attribute [where p = trex] t have r: "\<exists>d. Dino trex = Inr d"
    by blast
  from inst d r have "load_dinos [] [trex, homeless, stego] =
     Inl (Error ''Missing required Dinosaur property: where'')" by simp
  moreover from inst l
  have "fst (addTiles sample_runtime sample_data ann \<lparr>innerHTML = [], random = (\<lambda>n. 0)\<rparr>) = None"
    by blast
  ultimately show ?thesis using own d r l by blast
qed


section \<open>Extra properties\<close>

text \<open>
  C5, as the code has it. A record with the seven names as own properties makes a
  dinosaur, whatever else it holds. The entity has exactly the seven properties, with the
  values of the record. The other own properties of the record go into the rest object
  that is passed to \<open>Animal\<close>, together with weight, height and diet; \<open>Animal\<close>
  copies these three only, so no other property of the record is a property of the
  entity.
\<close>

theorem Dino_extras_dropped:
  assumes "\<forall>k\<in>set EXPECTED_PROPERTIES. hasOwnProperty p k"
  shows "Dino p =
     Inr (JSObj [(''weight'', Get p ''weight''), (''height'', Get p ''height''),
                 (''diet'', Get p ''diet''), (''species'', Get p ''species''),
                 (''where'', Get p ''where''), (''when'', Get p ''when''),
                 (''fact'', Get p ''fact'')] None) \<and>
   (hasOwnProperty (rest_properties [''species'', ''where'', ''when'', ''fact''] p) k \<longleftrightarrow>
      hasOwnProperty p k \<and> k \<notin> {''species'', ''where'', ''when'', ''fact''}) \<and>
   (\<forall>d. Dino p = Inr d \<and> k \<notin> set EXPECTED_PROPERTIES \<longrightarrow>
      \<not> hasOwnProperty d k \<and> Get d k = Undefined)"
proof -
  have "\<not> hasOwnProperty d k \<and> Get d k = Undefined"
    if "Dino p = Inr d" "k \<notin> set EXPECTED_PROPERTIES" for d
    using that unfolding Dino_fields [OF assms]
    by (auto simp: hasOwnProperty_def EXPECTED_PROPERTIES_def)
  then show ?thesis
    using Dino_fields [OF assms] hasOwnProperty_rest_properties [of _ p k] by simp
qed

theorem Dino_extras_dropped_witness:
  "list_all (hasOwnProperty trex) EXPECTED_PROPERTIES \<and> hasOwnProperty trex ''color'' \<and>
   ''color'' \<notin> set EXPECTED_PROPERTIES \<and>
   hasOwnProperty (rest_properties [''species'', ''where'', ''when'', ''fact''] trex) ''color'' \<and>
   Dino trex =
     Inr (JSObj [(''weight'', Num (Fin 13000)), (''height'', Num (Fin 144)),
                 (''diet'', Str ''carnivore''), (''species'', Str ''T-Rex''),
                 (''where'', Str ''North America''), (''when'', Str ''Late Cretaceous''),
                 (''fact'', Str ''The largest known skull measures 5 feet long.'')] None) \<and>
   \<not> hasOwnProperty
       (JSObj [(''weight'', Num (Fin 13000)), (''height'', Num (Fin 144)),
               (''diet'', Str ''carnivore''), (''species'', Str ''T-Rex''),
               (''where'', Str ''North America''), (''when'', Str ''Late Cretaceous''),
               (''fact'', Str ''The largest known skull measures 5 feet long.'')] None)
       ''color''"
proof -
  have h: "\<forall>k\<in>set EXPECTED_PROPERTIES. hasOwnProperty trex k"
    by (simp add: EXPECTED_PROPERTIES_def hasOwnProperty_def trex_def)
  then have a: "list_all (hasOwnProperty trex) EXPECTED_PROPERTIES"
    by (simp add: list_all_iff)
  have c: "hasOwnProperty trex ''color''" "''color'' \<notin> set EXPECTED_PROPERTIES"
    by (simp_all add: hasOwnProperty_def trex_def EXPECTED_PROPERTIES_def)
  have g: "Get trex ''weight'' = Num (Fin 13000)" "Get trex ''height'' = Num (Fin 144)"
    "Get trex ''diet'' = Str ''carnivore''" "Get trex ''species'' = Str ''T-Rex''"
    "Get trex ''where'' = Str ''North America''" "Get trex ''when'' = Str ''Late Cretaceous''"
    "Get trex ''fact'' = Str ''The largest known skull measures 5 feet long.''"
    by (simp_all add: trex_def)
  note inst = Dino_extras_dropped [OF h, of "''color''"]
  let ?d = "JSObj [(''weight'', Num (Fin 13000)), (''height'', Num (Fin 144)),
                 (''diet'', Str ''carnivore''), (''species'', Str ''T-Rex''),
                 (''where'', Str ''North America''), (''when'', Str ''Late Cretaceous''),
                 (''fact'', Str ''The largest known skull measures 5 feet long.'')] None"
  from inst have d: "Dino trex = Inr ?d"
    unfolding g by (rule conjunct1)
  note u = inst [THEN conjunct2, THEN conjunct2, THEN spec, of ?d, THEN mp, OF conjI, OF d c(2)]
  then have e: "\<not> hasOwnProperty ?d ''color''" by (rule conjunct1)
  from inst c(1) have r:
    "hasOwnProperty (rest_properties [''species'', ''where'', ''when'', ''fact''] trex) ''color''"
    by simp
  show ?thesis by (intro conjI) (fact a c r d e)+
qed

text \<open>
  C5, as the specification states it, would have the extra properties in the entity. The
  record \<open>trex\<close> has a property \<open>color\<close>; the dinosaur made from it has none.
\<close>

theorem Dino_extras_counterexample:
  "hasOwnProperty trex ''color'' \<and>
   (\<exists>d. Dino trex = Inr d \<and> \<not> hasOwnProperty d ''color'' \<and> Get d ''color'' = Undefined)"
  by (simp add: Dino_def EXPECTED_PROPERTIES_def hasOwnProperty_def trex_def Let_def
      Animal_def Object_assign_def rest_properties_def)

section \<open>Weights and heights\<close>

lemma num_less_asym: "num_less x y \<Longrightarrow> \<not> num_less y x"
  by (cases x; cases y) (simp_all add: num_less_def finite_value_def)

lemma num_sub_Fin: "a \<noteq> b \<Longrightarrow> num_sub rt (Fin a) (Fin b) = round64 rt (a - b)"
  by (simp add: num_sub_def finite_value_def)

lemma num_sub_same: "num_sub rt (Fin a) (Fin a) = Fin 0"
  by (simp add: num_sub_def finite_value_def)

lemma num_mul_Fin: "a \<noteq> 0 \<Longrightarrow> b \<noteq> 0 \<Longrightarrow> num_mul rt (Fin a) (Fin b) = round64 rt (a * b)"
  by (simp add: num_mul_def finite_value_def)

lemma num_div_Fin: "a \<noteq> 0 \<Longrightarrow> b \<noteq> 0 \<Longrightarrow> num_div rt (Fin a) (Fin b) = round64 rt (a / b)"
  by (simp add: num_div_def finite_value_def)

lemma rounds_to_nearestD:
  assumes "rounds_to_nearest rt"
  shows "1 / 2 ^ 1074 \<le> q \<Longrightarrow> num_less (Fin 0) (round64 rt q)"
    and "q \<le> - (1 / 2 ^ 1074) \<Longrightarrow> num_less (round64 rt q) (Fin 0)"
  using assms unfolding rounds_to_nearest_def by blast+

lemma num_sub_positive:
  assumes "rounds_to_nearest rt" "binary64_grid a" "binary64_grid b" "a < b"
  shows "num_less (Fin 0) (num_sub rt (Fin b) (Fin a))"
proof -
  have "1 / 2 ^ 1074 \<le> b - a" using assms(2,3,4) by (rule grid_difference)
  with assms(1) have "num_less (Fin 0) (round64 rt (b - a))" by (rule rounds_to_nearestD(1))
  moreover have "num_sub rt (Fin b) (Fin a) = round64 rt (b - a)"
    using assms(4) by (intro num_sub_Fin) simp
  ultimately show ?thesis by (simp only:)
qed

lemma num_sub_negative:
  assumes "rounds_to_nearest rt" "binary64_grid a" "binary64_grid b" "b < a"
  shows "num_less (num_sub rt (Fin b) (Fin a)) (Fin 0)"
proof -
  define c :: rat where "c = 1 / 2 ^ 1074"
  have "c \<le> a - b" unfolding c_def using assms(3,2,4) by (rule grid_difference)
  then have "b - a \<le> - c" by linarith
  then have "b - a \<le> - (1 / 2 ^ 1074)" unfolding c_def .
  with assms(1) have "num_less (round64 rt (b - a)) (Fin 0)" by (rule rounds_to_nearestD(2))
  moreover have "num_sub rt (Fin b) (Fin a) = round64 rt (b - a)"
    using assms(4) by (intro num_sub_Fin) simp
  ultimately show ?thesis by (simp only:)
qed

lemma Math_round_half_up:
  "\<exists>n. (Math_round (Fin q) = Fin (of_int n) \<or> n = 0 \<and> Math_round (Fin q) = NZero) \<and>
       of_int n - 1 / 2 \<le> q \<and> q < of_int n + 1 / 2"
proof -
  define k where "k = \<lfloor>q + 1 / 2\<rfloor>"
  have "of_int k \<le> q + 1 / 2" "q + 1 / 2 < of_int k + 1"
    unfolding k_def by linarith+
  then have b: "of_int k - 1 / 2 \<le> q" "q < of_int k + 1 / 2" by linarith+
  show ?thesis
  proof (cases "- (1 / 2) \<le> q \<and> q < 0")
    case True
    then have "0 \<le> q + 1 / 2" "q + 1 / 2 < 1" by linarith+
    then have "k = 0" unfolding k_def by linarith
    moreover have "Math_round (Fin q) = NZero" using True by simp
    ultimately show ?thesis using b by blast
  next
    case False
    then have "Math_round (Fin q) = Fin (of_int k)" by (auto simp: k_def)
    with b show ?thesis by blast
  qed
qed

lemma decimal_small: "n < 10 \<Longrightarrow> decimal n = [digit n]"
  by (subst decimal.simps) simp

lemma decimal_step: "10 \<le> n \<Longrightarrow> decimal n = decimal (n div 10) @ [digit (n mod 10)]"
  by (subst decimal.simps) simp

lemma decimal_nonempty: "decimal n \<noteq> []"
  by (subst decimal.simps) simp

lemma toFixed_2:
  assumes "\<bar>q\<bar> < 10 ^ 21"
  shows "toFixed rt (Fin q) 2 =
    (let n = nat \<lfloor>\<bar>q\<bar> * 100 + 1 / 2\<rfloor>
     in (if q < 0 then ''-'' else []) @ decimal (n div 100) @ ''.'' @
        [digit (n div 10 mod 10), digit (n mod 10)])"
proof -
  define n where "n = nat \<lfloor>\<bar>q\<bar> * 100 + 1 / 2\<rfloor>"
  let ?pad = "if length (decimal n) \<le> 2
              then replicate (2 + 1 - length (decimal n)) (CHR ''0'') @ decimal n
              else decimal n"
  have big: "\<not> (10 ^ 21 \<le> \<bar>q\<bar>)" using assms by simp
  have 1: "toFixed rt (Fin q) 2 =
      (if q < 0 then ''-'' else []) @
      take (length ?pad - 2) ?pad @ ''.'' @ drop (length ?pad - 2) ?pad"
    unfolding toFixed_def finite_value_def Let_def n_def using big by simp
  consider "n < 10" | "10 \<le> n" "n < 100" | "100 \<le> n" by linarith
  then have 2: "take (length ?pad - 2) ?pad = decimal (n div 100) \<and>
      drop (length ?pad - 2) ?pad = [digit (n div 10 mod 10), digit (n mod 10)]"
  proof cases
    case 1
    then have "decimal n = [digit n]" "n div 100 = 0" "n div 10 = 0" "n mod 10 = n"
      by (simp_all add: decimal_small)
    then show ?thesis by (simp add: decimal_small digit_def numeral_3_eq_3)
  next
    case 2
    then have d: "decimal n = [digit (n div 10), digit (n mod 10)]"
      using decimal_step [of n] by (simp add: decimal_small)
    from 2 have "n div 100 = 0" "n div 10 mod 10 = n div 10" by simp_all
    then show ?thesis by (simp add: d decimal_small digit_def)
  next
    case 3
    then have "10 \<le> n" "10 \<le> n div 10" by simp_all
    moreover have "n div 10 div 10 = n div (10 * 10)" by (rule div_mult2_eq [symmetric])
    then have "n div 10 div 10 = n div 100" by simp
    ultimately
    have d: "decimal n = decimal (n div 100) @ [digit (n div 10 mod 10), digit (n mod 10)]"
      using decimal_step [of n] decimal_step [of "n div 10"] by simp
    have "length (decimal (n div 100)) \<noteq> 0" using decimal_nonempty [of "n div 100"] by simp
    then show ?thesis by (simp add: d)
  qed
  show ?thesis
    unfolding 1 Let_def n_def [symmetric] using 2 by (simp only:)
qed

text \<open>
  C2. For two animals whose weights are finite numbers \<open>a\<close> (the speaker's) and
  \<open>b\<close>: when \<open>a < b\<close> the message states \<open>a\<close> and the rounded percentage
  \<open>100 * (b - a) / b\<close> and ends with lighter; when \<open>b < a\<close> it states \<open>a\<close> and
  the rounded percentage \<open>100 * (a - b) / b\<close>, over the same \<open>b\<close>, and ends with
  heavier; when \<open>a = b\<close> both directions give the message of equal weights. The
  percentage is computed in binary64: the difference, its product with one hundred and
  the quotient are each the exact result rounded by the runtime, so the percentage
  printed may differ by one from the rounded exact quotient. The weights are binary64
  values and the runtime rounds to nearest. The last rounding is \<open>Math.round\<close>: the
  rounded value of \<open>q\<close> is the integer \<open>n\<close> with \<open>n - 1/2 \<le> q < n + 1/2\<close>, so a
  tie goes up, and it is the negative zero when \<open>n\<close> is zero and \<open>q\<close> is negative.
\<close>

theorem compareWeights_cases:
  assumes "Get A ''weight'' = Num (Fin a)" "Get B ''weight'' = Num (Fin b)"
    and "binary64_grid a" "binary64_grid b" "rounds_to_nearest rt"
  shows
    "(a < b \<longrightarrow> compareWeights rt A B =
        ''At '' @ Number_toString rt (Fin a) @ '' lbs, I am about '' @
        Number_toString rt
          (Math_round (num_div rt (num_mul rt (Fin 100) (num_sub rt (Fin b) (Fin a))) (Fin b))) @
        ''% lighter than you'') \<and>
     (b < a \<longrightarrow> compareWeights rt A B =
        ''At '' @ Number_toString rt (Fin a) @ '' lbs, I am about '' @
        Number_toString rt
          (Math_round (num_div rt (num_mul rt (Fin 100) (num_sub rt (Fin a) (Fin b))) (Fin b))) @
        ''% heavier than you'') \<and>
     (a = b \<longrightarrow> compareWeights rt A B = ''We have the exact same weight!'' \<and>
        compareWeights rt B A = ''We have the exact same weight!'') \<and>
     (a \<noteq> b \<longrightarrow> num_sub rt (Fin a) (Fin b) = round64 rt (a - b)) \<and>
     (d \<noteq> 0 \<longrightarrow> num_mul rt (Fin 100) (Fin d) = round64 rt (100 * d)) \<and>
     (p \<noteq> 0 \<and> b \<noteq> 0 \<longrightarrow> num_div rt (Fin p) (Fin b) = round64 rt (p / b)) \<and>
     (\<exists>n. (Math_round (Fin q) = Fin (of_int n) \<or> n = 0 \<and> Math_round (Fin q) = NZero) \<and>
          of_int n - 1 / 2 \<le> q \<and> q < of_int n + 1 / 2)"
proof -
  have 1: "compareWeights rt A B =
        ''At '' @ Number_toString rt (Fin a) @ '' lbs, I am about '' @
        Number_toString rt
          (Math_round (num_div rt (num_mul rt (Fin 100) (num_sub rt (Fin b) (Fin a))) (Fin b))) @
        ''% lighter than you''" if "a < b"
    using num_sub_positive [OF assms(5,3,4) that]
    by (simp add: compareWeights_def assms(1,2) ToNumber_def ToString_def Let_def)
  have 2: "compareWeights rt A B =
        ''At '' @ Number_toString rt (Fin a) @ '' lbs, I am about '' @
        Number_toString rt
          (Math_round (num_div rt (num_mul rt (Fin 100) (num_sub rt (Fin a) (Fin b))) (Fin b))) @
        ''% heavier than you''" if "b < a"
    using num_sub_negative [OF assms(5,3,4) that]
      num_less_asym [OF num_sub_negative [OF assms(5,3,4) that]]
    by (simp add: compareWeights_def assms(1,2) ToNumber_def ToString_def Let_def)
  have 3: "compareWeights rt A B = ''We have the exact same weight!'' \<and>
        compareWeights rt B A = ''We have the exact same weight!''" if "a = b"
    using that
    by (simp add: compareWeights_def assms(1,2) ToNumber_def Let_def num_sub_same
        num_less_def finite_value_def)
  have 4: "num_sub rt (Fin a) (Fin b) = round64 rt (a - b)" if "a \<noteq> b"
    using that by (rule num_sub_Fin)
  have 5: "num_mul rt (Fin 100) (Fin d) = round64 rt (100 * d)" if "d \<noteq> 0"
    using that by (intro num_mul_Fin) simp_all
  have 6: "num_div rt (Fin p) (Fin b) = round64 rt (p / b)" if "p \<noteq> 0 \<and> b \<noteq> 0"
    using that by (intro num_div_Fin) simp_all
  from 1 2 3 4 5 6 Math_round_half_up [of q] show ?thesis by blast
qed

theorem compareWeights_cases_witness:
  "Get ann ''weight'' = Num (Fin 120) \<and>
   Get trex ''weight'' = Num (Fin 13000) \<and>
   Get (Human ann) ''weight'' = Num (Fin 120) \<and>
   Get hatchling ''weight'' = Num (Fin (5404319552844595 / 140737488355328)) \<and>
   Get bob ''weight'' = Num (Fin (5854679515581645 / 35184372088832)) \<and>
   binary64_grid 120 \<and>
   binary64_grid 13000 \<and>
   binary64_grid (5404319552844595 / 140737488355328) \<and>
   binary64_grid (5854679515581645 / 35184372088832) \<and>
   rounds_to_nearest sample_runtime \<and>
   compareWeights sample_runtime ann trex = ''At 120 lbs, I am about 99% lighter than you'' \<and>
   compareWeights sample_runtime trex ann =
     ''At 13000 lbs, I am about 10733% heavier than you'' \<and>
   compareWeights sample_runtime ann (Human ann) = ''We have the exact same weight!'' \<and>
   compareWeights sample_runtime (Human ann) ann = ''We have the exact same weight!'' \<and>
   compareWeights sample_runtime ann hatchling =
     ''At 120 lbs, I am about 212% heavier than you'' \<and>
   compareWeights sample_runtime trex bob =
     ''At 13000 lbs, I am about 7713% heavier than you'' \<and>
   Math_round (Fin (100 * (120 - (5404319552844595 / 140737488355328)) /
     (5404319552844595 / 140737488355328))) = Fin 213 \<and>
   Math_round (Fin (5 / 2)) = Fin 3 \<and>
   Math_round (Fin (- (5 / 2))) = Fin (- 2) \<and>
   Math_round (Fin (- (1 / 4))) = NZero"
proof -
  have rh: "round_binary64 (192 / 5) = Fin (5404319552844595 / 140737488355328)"
    by (subst round_binary64_eval [where e = "5"])
      (simp_all add: round_half_even_def Let_def)
  have rb: "round_binary64 (832 / 5) = Fin (5854679515581645 / 35184372088832)"
    by (subst round_binary64_eval [where e = "7"])
      (simp_all add: round_half_even_def Let_def)
  have g: "Get ann ''weight'' = Num (Fin 120)" "Get trex ''weight'' = Num (Fin 13000)"
    "Get (Human ann) ''weight'' = Num (Fin 120)"
    "Get hatchling ''weight'' = Num (Fin (5404319552844595 / 140737488355328))"
    "Get bob ''weight'' = Num (Fin (5854679515581645 / 35184372088832))"
    by (simp_all add: ann_def trex_def hatchling_def bob_def rh rb Human_def Animal_def
        Object_assign_def Get_rest_properties)
  have grid: "binary64_grid 120" "binary64_grid 13000"
    "binary64_grid (5404319552844595 / 140737488355328)"
    "binary64_grid (5854679515581645 / 35184372088832)"
    by (simp_all add: binary64_grid_def)
  note rt = rounds_to_nearest_sample_runtime
  have n: "Number_toString sample_runtime (Fin 120) = ''120''"
    "Number_toString sample_runtime (Fin 13000) = ''13000''"
    "Number_toString sample_runtime (Fin 99) = ''99''"
    "Number_toString sample_runtime (Fin 10733) = ''10733''"
    "Number_toString sample_runtime (Fin 212) = ''212''"
    "Number_toString sample_runtime (Fin 7713) = ''7713''"
    by (simp_all add: Number_toString_def decimal.simps digit_def)
  have us: "num_sub sample_runtime (Fin 13000) (Fin 120) = Fin 12880"
    by (simp add: num_sub_def finite_value_def sample_runtime_def,
        subst round_binary64_eval [where e = "13"],
        simp_all add: round_half_even_def Let_def)
  have um: "num_mul sample_runtime (Fin 100) (Fin 12880) = Fin 1288000"
    by (simp add: num_mul_def finite_value_def sample_runtime_def,
        subst round_binary64_eval [where e = "20"],
        simp_all add: round_half_even_def Let_def)
  have ud: "num_div sample_runtime (Fin 1288000) (Fin 13000) = Fin (6971918653910095 / 70368744177664)"
    by (simp add: num_div_def finite_value_def sample_runtime_def,
        subst round_binary64_eval [where e = "6"],
        simp_all add: round_half_even_def Let_def)
  have ur: "Math_round (Fin (6971918653910095 / 70368744177664)) = Fin 99"
    by simp
  have vs: "num_sub sample_runtime (Fin 13000) (Fin 120) = Fin 12880"
    by (simp add: num_sub_def finite_value_def sample_runtime_def,
        subst round_binary64_eval [where e = "13"],
        simp_all add: round_half_even_def Let_def)
  have vm: "num_mul sample_runtime (Fin 100) (Fin 12880) = Fin 1288000"
    by (simp add: num_mul_def finite_value_def sample_runtime_def,
        subst round_binary64_eval [where e = "20"],
        simp_all add: round_half_even_def Let_def)
  have vd: "num_div sample_runtime (Fin 1288000) (Fin 120) = Fin (5900712402397867 / 549755813888)"
    by (simp add: num_div_def finite_value_def sample_runtime_def,
        subst round_binary64_eval [where e = "13"],
        simp_all add: round_half_even_def Let_def)
  have vr: "Math_round (Fin (5900712402397867 / 549755813888)) = Fin 10733"
    by simp
  have ws: "num_sub sample_runtime (Fin 120) (Fin (5404319552844595 / 140737488355328)) = Fin (2871044762448691 / 35184372088832)"
    by (simp add: num_sub_def finite_value_def sample_runtime_def,
        subst round_binary64_eval [where e = "6"],
        simp_all add: round_half_even_def Let_def)
  have wm: "num_mul sample_runtime (Fin 100) (Fin (2871044762448691 / 35184372088832)) = Fin (8972014882652159 / 1099511627776)"
    by (simp add: num_mul_def finite_value_def sample_runtime_def,
        subst round_binary64_eval [where e = "12"],
        simp_all add: round_half_even_def Let_def)
  have wd: "num_div sample_runtime (Fin (8972014882652159 / 1099511627776)) (Fin (5404319552844595 / 140737488355328)) = Fin (7476679068876799 / 35184372088832)"
    by (simp add: num_div_def finite_value_def sample_runtime_def,
        subst round_binary64_eval [where e = "7"],
        simp_all add: round_half_even_def Let_def)
  have wr: "Math_round (Fin (7476679068876799 / 35184372088832)) = Fin 212"
    by simp
  have xs: "num_sub sample_runtime (Fin 13000) (Fin (5854679515581645 / 35184372088832)) = Fin (7055346213113037 / 549755813888)"
    by (simp add: num_sub_def finite_value_def sample_runtime_def,
        subst round_binary64_eval [where e = "13"],
        simp_all add: round_half_even_def Let_def)
  have xm: "num_mul sample_runtime (Fin 100) (Fin (7055346213113037 / 549755813888)) = Fin 1283360"
    by (simp add: num_mul_def finite_value_def sample_runtime_def,
        subst round_binary64_eval [where e = "20"],
        simp_all add: round_half_even_def Let_def)
  have xd: "num_div sample_runtime (Fin 1283360) (Fin (5854679515581645 / 35184372088832)) = Fin (15425 / 2)"
    by (simp add: num_div_def finite_value_def sample_runtime_def,
        subst round_binary64_eval [where e = "12"],
        simp_all add: round_half_even_def Let_def)
  have xr: "Math_round (Fin (15425 / 2)) = Fin 7713"
    by simp
  have 1: "compareWeights sample_runtime ann trex = ''At 120 lbs, I am about 99% lighter than you''"
    using compareWeights_cases [OF g(1) g(2) grid(1) grid(2) rt, THEN conjunct1]
    by (simp add: n us um ud ur)
  have 2: "compareWeights sample_runtime trex ann =
     ''At 13000 lbs, I am about 10733% heavier than you''"
    using compareWeights_cases [OF g(2) g(1) grid(2) grid(1) rt, THEN conjunct2, THEN conjunct1]
    by (simp add: n vs vm vd vr)
  have 3: "compareWeights sample_runtime ann (Human ann) = ''We have the exact same weight!''"
    "compareWeights sample_runtime (Human ann) ann = ''We have the exact same weight!''"
    using compareWeights_cases [OF g(1) g(3) grid(1) grid(1) rt, THEN conjunct2, THEN conjunct2,
        THEN conjunct1]
    by simp_all
  have 4: "compareWeights sample_runtime ann hatchling =
     ''At 120 lbs, I am about 212% heavier than you''"
    using compareWeights_cases [OF g(1) g(4) grid(1) grid(3) rt, THEN conjunct2, THEN conjunct1]
    by (simp add: n ws wm wd wr)
  have 5: "compareWeights sample_runtime trex bob =
     ''At 13000 lbs, I am about 7713% heavier than you''"
    using compareWeights_cases [OF g(2) g(5) grid(2) grid(4) rt, THEN conjunct2, THEN conjunct1]
    by (simp add: n xs xm xd xr)
  have 6: "Math_round (Fin (100 * (120 - (5404319552844595 / 140737488355328)) /
     (5404319552844595 / 140737488355328))) = Fin 213"
    "Math_round (Fin (5 / 2)) = Fin 3" "Math_round (Fin (- (5 / 2))) = Fin (- 2)"
    "Math_round (Fin (- (1 / 4))) = NZero"
    by simp_all
  show ?thesis by (intro conjI) (fact g grid rt 1 2 3 4 5 6)+
qed

text \<open>
  C3. For two animals whose heights are finite numbers \<open>a\<close> (the speaker's) and
  \<open>b\<close>, in inches: when the heights differ the message shows \<open>a / 12\<close> as
  \<open>toFixed(2)\<close> prints it and the rounded percentage \<open>100 * |b - a| / b\<close> of the
  raw values, over \<open>b\<close>; it ends with smaller when \<open>a < b\<close> and with taller when
  \<open>b < a\<close>; equal heights give the message of equal heights. The quotient by twelve
  and the operations of the percentage are each the exact result rounded by the runtime
  to binary64; the heights are binary64 values and the runtime rounds to nearest. What
  \<open>toFixed(2)\<close> prints for a number below \<open>10^21\<close> in magnitude is its sign, the
  digits of the integer part, a point and two digits: the decimal digits of the number
  times one hundred rounded to the nearest integer.
\<close>

theorem compareHeights_cases:
  assumes "Get A ''height'' = Num (Fin a)" "Get B ''height'' = Num (Fin b)"
    and "binary64_grid a" "binary64_grid b" "rounds_to_nearest rt"
  shows
    "(a < b \<longrightarrow> compareHeights rt A B =
        ''At '' @ toFixed rt (num_div rt (Fin a) (Fin 12)) 2 @ '' feet, I am about '' @
        Number_toString rt
          (Math_round (num_div rt (num_mul rt (Fin 100) (num_sub rt (Fin b) (Fin a))) (Fin b))) @
        ''% smaller than you'') \<and>
     (b < a \<longrightarrow> compareHeights rt A B =
        ''At '' @ toFixed rt (num_div rt (Fin a) (Fin 12)) 2 @ '' feet, I am about '' @
        Number_toString rt
          (Math_round (num_div rt (num_mul rt (Fin 100) (num_sub rt (Fin a) (Fin b))) (Fin b))) @
        ''% taller than you'') \<and>
     (a = b \<longrightarrow> compareHeights rt A B = ''We have the exact same height!'') \<and>
     (a \<noteq> 0 \<longrightarrow> num_div rt (Fin a) (Fin 12) = round64 rt (a / 12)) \<and>
     (\<bar>x\<bar> < 10 ^ 21 \<longrightarrow>
        toFixed rt (Fin x) 2 =
          (let n = nat \<lfloor>\<bar>x\<bar> * 100 + 1 / 2\<rfloor>
           in (if x < 0 then ''-'' else []) @ decimal (n div 100) @ ''.'' @
              [digit (n div 10 mod 10), digit (n mod 10)])) \<and>
     (a \<noteq> b \<longrightarrow> num_sub rt (Fin a) (Fin b) = round64 rt (a - b)) \<and>
     (d \<noteq> 0 \<longrightarrow> num_mul rt (Fin 100) (Fin d) = round64 rt (100 * d)) \<and>
     (p \<noteq> 0 \<and> b \<noteq> 0 \<longrightarrow> num_div rt (Fin p) (Fin b) = round64 rt (p / b))"
proof -
  have 1: "compareHeights rt A B =
        ''At '' @ toFixed rt (num_div rt (Fin a) (Fin 12)) 2 @ '' feet, I am about '' @
        Number_toString rt
          (Math_round (num_div rt (num_mul rt (Fin 100) (num_sub rt (Fin b) (Fin a))) (Fin b))) @
        ''% smaller than you''" if "a < b"
    using num_sub_positive [OF assms(5,3,4) that]
    by (simp add: compareHeights_def assms(1,2) ToNumber_def Let_def)
  have 2: "compareHeights rt A B =
        ''At '' @ toFixed rt (num_div rt (Fin a) (Fin 12)) 2 @ '' feet, I am about '' @
        Number_toString rt
          (Math_round (num_div rt (num_mul rt (Fin 100) (num_sub rt (Fin a) (Fin b))) (Fin b))) @
        ''% taller than you''" if "b < a"
    using num_sub_negative [OF assms(5,3,4) that]
      num_less_asym [OF num_sub_negative [OF assms(5,3,4) that]]
    by (simp add: compareHeights_def assms(1,2) ToNumber_def Let_def)
  have 3: "compareHeights rt A B = ''We have the exact same height!''" if "a = b"
    using that
    by (simp add: compareHeights_def assms(1,2) ToNumber_def Let_def num_sub_same
        num_less_def finite_value_def)
  have 4: "num_div rt (Fin a) (Fin 12) = round64 rt (a / 12)" if "a \<noteq> 0"
    using that by (intro num_div_Fin) simp_all
  have 5: "toFixed rt (Fin x) 2 =
          (let n = nat \<lfloor>\<bar>x\<bar> * 100 + 1 / 2\<rfloor>
           in (if x < 0 then ''-'' else []) @ decimal (n div 100) @ ''.'' @
              [digit (n div 10 mod 10), digit (n mod 10)])" if "\<bar>x\<bar> < 10 ^ 21"
    using that by (rule toFixed_2)
  have 6: "num_sub rt (Fin a) (Fin b) = round64 rt (a - b)" if "a \<noteq> b"
    using that by (rule num_sub_Fin)
  have 7: "num_mul rt (Fin 100) (Fin d) = round64 rt (100 * d)" if "d \<noteq> 0"
    using that by (intro num_mul_Fin) simp_all
  have 8: "num_div rt (Fin p) (Fin b) = round64 rt (p / b)" if "p \<noteq> 0 \<and> b \<noteq> 0"
    using that by (intro num_div_Fin) simp_all
  from 1 2 3 4 5 6 7 8 show ?thesis by blast
qed

theorem compareHeights_cases_witness:
  "Get trex ''height'' = Num (Fin 144) \<and>
   Get ann ''height'' = Num (Fin 65) \<and>
   Get (Human ann) ''height'' = Num (Fin 65) \<and>
   Get hatchling ''height'' = Num (Fin (8106479329266893 / 9007199254740992)) \<and>
   Get bob ''height'' = Num (Fin (8739798026865869 / 140737488355328)) \<and>
   binary64_grid 144 \<and>
   binary64_grid 65 \<and>
   binary64_grid (8106479329266893 / 9007199254740992) \<and>
   binary64_grid (8739798026865869 / 140737488355328) \<and>
   rounds_to_nearest sample_runtime \<and>
   compareHeights sample_runtime trex ann =
     ''At 12.00 feet, I am about 122% taller than you'' \<and>
   compareHeights sample_runtime ann trex =
     ''At 5.42 feet, I am about 55% smaller than you'' \<and>
   compareHeights sample_runtime ann (Human ann) = ''We have the exact same height!'' \<and>
   compareHeights sample_runtime hatchling ann =
     ''At 0.07 feet, I am about 99% smaller than you'' \<and>
   compareHeights sample_runtime bob trex =
     ''At 5.17 feet, I am about 57% smaller than you'' \<and>
   num_div sample_runtime (Fin (8106479329266893 / 9007199254740992)) (Fin 12) =
     Fin (5404319552844595 / 72057594037927936) \<and>
   toFixed sample_runtime (Fin (5404319552844595 / 72057594037927936)) 2 = ''0.07'' \<and>
   toFixed sample_runtime (Fin (3 / 40)) 2 = ''0.08''"
proof -
  have rh: "round_binary64 (9 / 10) = Fin (8106479329266893 / 9007199254740992)"
    by (subst round_binary64_eval [where e = "- 1"])
      (simp_all add: round_half_even_def Let_def)
  have rb: "round_binary64 (621 / 10) = Fin (8739798026865869 / 140737488355328)"
    by (subst round_binary64_eval [where e = "5"])
      (simp_all add: round_half_even_def Let_def)
  have g: "Get trex ''height'' = Num (Fin 144)" "Get ann ''height'' = Num (Fin 65)"
    "Get (Human ann) ''height'' = Num (Fin 65)"
    "Get hatchling ''height'' = Num (Fin (8106479329266893 / 9007199254740992))"
    "Get bob ''height'' = Num (Fin (8739798026865869 / 140737488355328))"
    by (simp_all add: ann_def trex_def hatchling_def bob_def rh rb Human_def Animal_def
        Object_assign_def Get_rest_properties)
  have grid: "binary64_grid 144" "binary64_grid 65"
    "binary64_grid (8106479329266893 / 9007199254740992)"
    "binary64_grid (8739798026865869 / 140737488355328)"
    by (simp_all add: binary64_grid_def)
  note rt = rounds_to_nearest_sample_runtime
  have n: "Number_toString sample_runtime (Fin 122) = ''122''"
    "Number_toString sample_runtime (Fin 55) = ''55''"
    "Number_toString sample_runtime (Fin 99) = ''99''"
    "Number_toString sample_runtime (Fin 57) = ''57''"
    by (simp_all add: Number_toString_def decimal.simps digit_def)
  have f1: "num_div sample_runtime (Fin 144) (Fin 12) = Fin 12"
    by (simp add: num_div_def finite_value_def sample_runtime_def,
        subst round_binary64_eval [where e = "3"],
        simp_all add: round_half_even_def Let_def)
  have f2: "num_div sample_runtime (Fin 65) (Fin 12) = Fin (6098624495397547 / 1125899906842624)"
    by (simp add: num_div_def finite_value_def sample_runtime_def,
        subst round_binary64_eval [where e = "2"],
        simp_all add: round_half_even_def Let_def)
  have f3: "num_div sample_runtime (Fin (8106479329266893 / 9007199254740992)) (Fin 12) = Fin (5404319552844595 / 72057594037927936)"
    by (simp add: num_div_def finite_value_def sample_runtime_def,
        subst round_binary64_eval [where e = "- 4"],
        simp_all add: round_half_even_def Let_def)
  have f4: "num_div sample_runtime (Fin (8739798026865869 / 140737488355328)) (Fin 12) = Fin (5826532017910579 / 1125899906842624)"
    by (simp add: num_div_def finite_value_def sample_runtime_def,
        subst round_binary64_eval [where e = "2"],
        simp_all add: round_half_even_def Let_def)
  have t1: "toFixed sample_runtime (Fin 12) 2 = ''12.00''"
    using compareHeights_cases [OF g(1) g(2) grid(1) grid(2) rt,
        where x = "12", THEN conjunct2, THEN conjunct2, THEN conjunct2,
        THEN conjunct2, THEN conjunct1]
    by (simp add: Let_def decimal.simps digit_def)
  have t2: "toFixed sample_runtime (Fin (6098624495397547 / 1125899906842624)) 2 = ''5.42''"
    using compareHeights_cases [OF g(1) g(2) grid(1) grid(2) rt,
        where x = "6098624495397547 / 1125899906842624", THEN conjunct2, THEN conjunct2, THEN conjunct2,
        THEN conjunct2, THEN conjunct1]
    by (simp add: Let_def decimal.simps digit_def)
  have t3: "toFixed sample_runtime (Fin (5404319552844595 / 72057594037927936)) 2 = ''0.07''"
    using compareHeights_cases [OF g(1) g(2) grid(1) grid(2) rt,
        where x = "5404319552844595 / 72057594037927936", THEN conjunct2, THEN conjunct2, THEN conjunct2,
        THEN conjunct2, THEN conjunct1]
    by (simp add: Let_def decimal.simps digit_def)
  have t4: "toFixed sample_runtime (Fin (5826532017910579 / 1125899906842624)) 2 = ''5.17''"
    using compareHeights_cases [OF g(1) g(2) grid(1) grid(2) rt,
        where x = "5826532017910579 / 1125899906842624", THEN conjunct2, THEN conjunct2, THEN conjunct2,
        THEN conjunct2, THEN conjunct1]
    by (simp add: Let_def decimal.simps digit_def)
  have t5: "toFixed sample_runtime (Fin (3 / 40)) 2 = ''0.08''"
    using compareHeights_cases [OF g(1) g(2) grid(1) grid(2) rt,
        where x = "3 / 40", THEN conjunct2, THEN conjunct2, THEN conjunct2,
        THEN conjunct2, THEN conjunct1]
    by (simp add: Let_def decimal.simps digit_def)
  have us: "num_sub sample_runtime (Fin 144) (Fin 65) = Fin 79"
    by (simp add: num_sub_def finite_value_def sample_runtime_def,
        subst round_binary64_eval [where e = "6"],
        simp_all add: round_half_even_def Let_def)
  have um: "num_mul sample_runtime (Fin 100) (Fin 79) = Fin 7900"
    by (simp add: num_mul_def finite_value_def sample_runtime_def,
        subst round_binary64_eval [where e = "12"],
        simp_all add: round_half_even_def Let_def)
  have ud: "num_div sample_runtime (Fin 7900) (Fin 65) = Fin (8552508907746855 / 70368744177664)"
    by (simp add: num_div_def finite_value_def sample_runtime_def,
        subst round_binary64_eval [where e = "6"],
        simp_all add: round_half_even_def Let_def)
  have ur: "Math_round (Fin (8552508907746855 / 70368744177664)) = Fin 122"
    by simp
  have vs: "num_sub sample_runtime (Fin 144) (Fin 65) = Fin 79"
    by (simp add: num_sub_def finite_value_def sample_runtime_def,
        subst round_binary64_eval [where e = "6"],
        simp_all add: round_half_even_def Let_def)
  have vm: "num_mul sample_runtime (Fin 100) (Fin 79) = Fin 7900"
    by (simp add: num_mul_def finite_value_def sample_runtime_def,
        subst round_binary64_eval [where e = "12"],
        simp_all add: round_half_even_def Let_def)
  have vd: "num_div sample_runtime (Fin 7900) (Fin 144) = Fin (1930253746540089 / 35184372088832)"
    by (simp add: num_div_def finite_value_def sample_runtime_def,
        subst round_binary64_eval [where e = "5"],
        simp_all add: round_half_even_def Let_def)
  have vr: "Math_round (Fin (1930253746540089 / 35184372088832)) = Fin 55"
    by simp
  have ws: "num_sub sample_runtime (Fin 65) (Fin (8106479329266893 / 9007199254740992)) = Fin (2255318250894131 / 35184372088832)"
    by (simp add: num_sub_def finite_value_def sample_runtime_def,
        subst round_binary64_eval [where e = "6"],
        simp_all add: round_half_even_def Let_def)
  have wm: "num_mul sample_runtime (Fin 100) (Fin (2255318250894131 / 35184372088832)) = Fin (7047869534044159 / 1099511627776)"
    by (simp add: num_mul_def finite_value_def sample_runtime_def,
        subst round_binary64_eval [where e = "12"],
        simp_all add: round_half_even_def Let_def)
  have wd: "num_div sample_runtime (Fin (7047869534044159 / 1099511627776)) (Fin 65) = Fin (6939440771981941 / 70368744177664)"
    by (simp add: num_div_def finite_value_def sample_runtime_def,
        subst round_binary64_eval [where e = "6"],
        simp_all add: round_half_even_def Let_def)
  have wr: "Math_round (Fin (6939440771981941 / 70368744177664)) = Fin 99"
    by simp
  have xs: "num_sub sample_runtime (Fin 144) (Fin (8739798026865869 / 140737488355328)) = Fin (2881600074075341 / 35184372088832)"
    by (simp add: num_sub_def finite_value_def sample_runtime_def,
        subst round_binary64_eval [where e = "6"],
        simp_all add: round_half_even_def Let_def)
  have xm: "num_mul sample_runtime (Fin 100) (Fin (2881600074075341 / 35184372088832)) = Fin (9005000231485441 / 1099511627776)"
    by (simp add: num_mul_def finite_value_def sample_runtime_def,
        subst round_binary64_eval [where e = "12"],
        simp_all add: round_half_even_def Let_def)
  have xd: "num_div sample_runtime (Fin (9005000231485441 / 1099511627776)) (Fin 144) = Fin (8004444650209281 / 140737488355328)"
    by (simp add: num_div_def finite_value_def sample_runtime_def,
        subst round_binary64_eval [where e = "5"],
        simp_all add: round_half_even_def Let_def)
  have xr: "Math_round (Fin (8004444650209281 / 140737488355328)) = Fin 57"
    by simp
  have 1: "compareHeights sample_runtime trex ann =
     ''At 12.00 feet, I am about 122% taller than you''"
    using compareHeights_cases [OF g(1) g(2) grid(1) grid(2) rt, THEN conjunct2, THEN conjunct1]
    by (simp add: n f1 t1 us um ud ur)
  have 2: "compareHeights sample_runtime ann trex =
     ''At 5.42 feet, I am about 55% smaller than you''"
    using compareHeights_cases [OF g(2) g(1) grid(2) grid(1) rt, THEN conjunct1]
    by (simp add: n f2 t2 vs vm vd vr)
  have 3: "compareHeights sample_runtime ann (Human ann) = ''We have the exact same height!''"
    using compareHeights_cases [OF g(2) g(3) grid(2) grid(2) rt, THEN conjunct2, THEN conjunct2,
        THEN conjunct1]
    by simp
  have 4: "compareHeights sample_runtime hatchling ann =
     ''At 0.07 feet, I am about 99% smaller than you''"
    using compareHeights_cases [OF g(4) g(2) grid(3) grid(2) rt, THEN conjunct1]
    by (simp add: n f3 t3 ws wm wd wr)
  have 5: "compareHeights sample_runtime bob trex =
     ''At 5.17 feet, I am about 57% smaller than you''"
    using compareHeights_cases [OF g(5) g(1) grid(4) grid(1) rt, THEN conjunct1]
    by (simp add: n f4 t4 xs xm xd xr)
  show ?thesis by (intro conjI) (fact g grid rt 1 2 3 4 5 f3 t3 t5)+
qed

section \<open>The tiles of the human and of the sentinel\<close>

lemma generateTileHTML_human:
  \<open>generateTileHTML rt caption (Str []) (Str ''human'') =
     ''<div class="grid-item">'' @ line_break @ indent 16 @
     ''<h3>'' @ ToString rt caption @ ''</h3>'' @ line_break @ indent 16 @
     ''<img src="images/human.png" alt="'' @ ToString rt caption @ '' image"/>'' @
     line_break @ indent 16 @ line_break @ indent 12 @ ''</div>''\<close>
  by (simp add: generateTileHTML_def ToBoolean_def ToString_def)

lemma generateTileHTML_Pigeon:
  \<open>generateTileHTML rt (Str ''Pigeon'') body Undefined =
     ''<div class="grid-item">'' @ line_break @ indent 16 @
     ''<h3>Pigeon</h3>'' @ line_break @ indent 16 @
     ''<img src="images/Pigeon.png" alt="Pigeon image"/>'' @ line_break @ indent 16 @
     (if ToBoolean body then ''<p>'' @ ToString rt body @ ''</p>'' else []) @
     line_break @ indent 12 @ ''</div>''\<close>
  by (simp add: generateTileHTML_def ToBoolean_def ToString_def)

text \<open>
  C8. With the human alone, the tile has the name of the human in the heading and in the
  text of the image, the image \<open>human\<close>, and nothing where the fact would stand: no
  paragraph at all. With a dinosaur whose species is \<open>Pigeon\<close>, the tile has the
  heading and image \<open>Pigeon\<close> and a paragraph with the fact of the dinosaur (no
  paragraph when the fact is empty); the tile is the same for every human, so no
  comparison takes part, and the source of random numbers is left as it was.
\<close>

theorem getTileHTML_human_and_sentinel:
  \<open>getTileHTML rt human [] g =
     Inr (''<div class="grid-item">'' @ line_break @ indent 16 @
          ''<h3>'' @ ToString rt (Get human ''name'') @ ''</h3>'' @ line_break @ indent 16 @
          ''<img src="images/human.png" alt="'' @ ToString rt (Get human ''name'') @
            '' image"/>'' @ line_break @ indent 16 @
          line_break @ indent 12 @ ''</div>'', g) \<and>
   (Get d ''species'' = Str ''Pigeon'' \<longrightarrow>
      getTileHTML rt human [Some d] g =
        Inr (''<div class="grid-item">'' @ line_break @ indent 16 @
             ''<h3>Pigeon</h3>'' @ line_break @ indent 16 @
             ''<img src="images/Pigeon.png" alt="Pigeon image"/>'' @ line_break @ indent 16 @
             (if ToBoolean (Get d ''fact'')
              then ''<p>'' @ ToString rt (Get d ''fact'') @ ''</p>'' else []) @
             line_break @ indent 12 @ ''</div>'', g) \<and>
      (\<forall>s. Get d ''fact'' = Str s \<longrightarrow> ToString rt (Get d ''fact'') = s) \<and>
      getTileHTML rt human' [Some d] g = getTileHTML rt human [Some d] g)\<close>
  by (simp add: getTileHTML_human getTileHTML_Pigeon generateTileHTML_human
      generateTileHTML_Pigeon ToString_def)

theorem getTileHTML_human_and_sentinel_witness:
  \<open>Get pigeon ''species'' = Str ''Pigeon'' \<and>
   getTileHTML sample_runtime ann [] (\<lambda>n. 0) =
     Inr (''<div class="grid-item">'' @ line_break @ indent 16 @
          ''<h3>Ann</h3>'' @ line_break @ indent 16 @
          ''<img src="images/human.png" alt="Ann image"/>'' @ line_break @ indent 16 @
          line_break @ indent 12 @ ''</div>'', \<lambda>n. 0) \<and>
   getTileHTML sample_runtime ann [Some pigeon] (\<lambda>n. 0) =
     Inr (''<div class="grid-item">'' @ line_break @ indent 16 @
          ''<h3>Pigeon</h3>'' @ line_break @ indent 16 @
          ''<img src="images/Pigeon.png" alt="Pigeon image"/>'' @ line_break @ indent 16 @
          ''<p>All birds are living dinosaurs.</p>'' @
          line_break @ indent 12 @ ''</div>'', \<lambda>n. 0) \<and>
   getTileHTML sample_runtime trex [Some pigeon] (\<lambda>n. 0) =
     getTileHTML sample_runtime ann [Some pigeon] (\<lambda>n. 0)\<close>
proof -
  have g: "Get pigeon ''species'' = Str ''Pigeon''"
    "Get pigeon ''fact'' = Str ''All birds are living dinosaurs.''"
    "Get ann ''name'' = Str ''Ann''"
    by (simp_all add: pigeon_def dino_record_def ann_def)
  from getTileHTML_human_and_sentinel
    [of sample_runtime ann "\<lambda>n. 0" pigeon trex] g(1)
  show ?thesis
    unfolding g by (simp add: ToString_def ToBoolean_def)
qed

section \<open>The grid\<close>

lemma generateTileHTML_human_markup:
  "generateTileHTML rt caption (Str []) (Str ''human'') =
     tile_markup (ToString rt caption) ''human'' []"
  by (simp add: generateTileHTML_def ToBoolean_def ToString_def)

lemma getTileHTML_pick:
  assumes "Get d ''species'' \<noteq> Str ''Pigeon''" "tile_index rt (g 0) = Fin (of_nat k)" "k < 6"
  shows "getTileHTML rt human [Some d] g =
     Inr (tile_markup (ToString rt (Get d ''species'')) (ToString rt (Get d ''species''))
            (paragraph_of rt (facts_of rt human d ! k)),
          \<lambda>n. g (Suc n))"
proof -
  have "array_get (facts_of rt human d) (tile_index rt (g 0)) = facts_of rt human d ! k"
    using assms(3) by (simp only: assms(2)) (simp add: array_get_nat length_facts_of)
  then show ?thesis
    using assms(1)
    by (simp add: getTileHTML_def Math_random_def Let_def generateTileHTML_markup)
qed

lemma unit_draws_draws:
  "list_all (\<lambda>x. 0 \<le> x \<and> x < 1) xs \<Longrightarrow> 0 \<le> draws xs n \<and> draws xs n < 1"
  by (induction xs n rule: draws.induct) simp_all

text \<open>
  C9. For a human, eight dinosaurs, draws in \<open>[0, 1)\<close> and a runtime that rounds to
  nearest, \<open>addTiles\<close> completes and appends nine tiles to the grid: the tiles of the
  dinosaurs 0 to 3, the tile of the human, the tiles of the dinosaurs 4 to 7. The tile of
  a dinosaur has its species in the heading, in the name of the image and in the text of
  the image, and its paragraph holds one of the six candidates: the location, the era,
  the fact, and the comparisons of diet, height and weight with the human. The tile of
  the sentinel has the heading and the image \<open>Pigeon\<close> and its own fact.
\<close>

theorem addTiles_nine_tiles:
  assumes "length dinos = 8" "unit_draws (random pg)" "rounds_to_nearest rt"
  shows "\<exists>ts pg'. addTiles rt dinos human pg = (None, pg') \<and> length ts = 9 \<and>
     innerHTML pg' = innerHTML pg @ concat ts \<and>
     ts ! 4 = tile_markup (ToString rt (Get human ''name'')) ''human'' [] \<and>
     (\<forall>i<4. dino_tile rt human (dinos ! i) (ts ! i)) \<and>
     (\<forall>i\<in>{4..<8}. dino_tile rt human (dinos ! i) (ts ! Suc i))"
proof -
  from assms(1) have len: "8 \<le> length dinos" by simp
  define P where "P = (\<lambda>d t. dino_tile rt human d t)"
  have tile: "\<exists>t g'. getTileHTML rt human [Some d] g = Inr (t, g') \<and> P d t \<and> unit_draws g'"
    if "unit_draws g" for d g
    unfolding P_def using that assms(3) by (rule getTileHTML_tile)
  have "\<exists>ts pg'. addTiles rt dinos human pg = (None, pg') \<and> length ts = 9 \<and>
     innerHTML pg' = innerHTML pg @ concat ts \<and>
     ts ! 4 = generateTileHTML rt (Get human ''name'') (Str []) (Str ''human'') \<and>
     (\<forall>i<4. P (dinos ! i) (ts ! i)) \<and>
     (\<forall>i\<in>{4..<8}. P (dinos ! i) (ts ! Suc i))"
    using len assms(2) tile by (rule addTiles_tiles)
  then show ?thesis
    unfolding P_def by (simp only: generateTileHTML_human_markup)
qed

theorem addTiles_nine_tiles_witness:
  "length sample_data = 8 \<and> unit_draws (random blank_page) \<and>
   rounds_to_nearest sample_runtime \<and>
   fst (addTiles sample_runtime sample_data ann blank_page) = None \<and>
   innerHTML (snd (addTiles sample_runtime sample_data ann blank_page)) =
     concat
      [tile_markup ''T-Rex'' ''T-Rex'' ''<p>Location: North America</p>'',
       tile_markup ''Stegosaurus'' ''Stegosaurus'' ''<p>When I lived: Late Jurassic</p>'',
       tile_markup ''Triceratops'' ''Triceratops'' ''<p>First discovered in 1889.</p>'',
       tile_markup ''Anklyosaurus'' ''Anklyosaurus'' ''<p>I think you shouldn't eat meat, you know.</p>'',
       tile_markup ''Ann'' ''human'' [],
       tile_markup ''Brachiosaurus'' ''Brachiosaurus'' ''<p>At 31.00 feet, I am about 472% taller than you</p>'',
       tile_markup ''Elasmosaurus'' ''Elasmosaurus'' ''<p>At 16000 lbs, I am about 13233% heavier than you</p>'',
       tile_markup ''Pteranodon'' ''Pteranodon'' ''<p>Why do you waste your appetite on vegetables ?</p>'',
       tile_markup ''Pigeon'' ''Pigeon'' ''<p>All birds are living dinosaurs.</p>''] \<and>
   (\<exists>ts pg'. addTiles sample_runtime sample_data ann blank_page = (None, pg') \<and>
      length ts = 9 \<and> innerHTML pg' = innerHTML blank_page @ concat ts \<and>
      ts ! 4 = tile_markup (ToString sample_runtime (Get ann ''name'')) ''human'' [] \<and>
      (\<forall>i<4. dino_tile sample_runtime ann (sample_data ! i) (ts ! i)) \<and>
      (\<forall>i\<in>{4..<8}. dino_tile sample_runtime ann (sample_data ! i) (ts ! Suc i)))"
proof -
  have l: "length sample_data = 8" by (simp add: sample_data_def)
  have u: "unit_draws (random blank_page)"
    unfolding blank_page_def by (simp only: page.simps) (intro allI unit_draws_draws, simp)
  note rt = rounds_to_nearest_sample_runtime
  have m0: "num_mul sample_runtime (Fin (1 / 16)) (Fin 5) = Fin (5 / 16)"
    by (simp add: num_mul_def finite_value_def sample_runtime_def,
        subst round_binary64_eval [where e = "- 2"],
        simp_all add: round_half_even_def Let_def)
  have i0: "tile_index sample_runtime (1 / 16) = Fin 0"
    by (simp add: tile_index_def m0)
  have m1: "num_mul sample_runtime (Fin (1 / 4)) (Fin 5) = Fin (5 / 4)"
    by (simp add: num_mul_def finite_value_def sample_runtime_def,
        subst round_binary64_eval [where e = "0"],
        simp_all add: round_half_even_def Let_def)
  have i1: "tile_index sample_runtime (1 / 4) = Fin 1"
    by (simp add: tile_index_def m1)
  have m2: "num_mul sample_runtime (Fin (3 / 8)) (Fin 5) = Fin (15 / 8)"
    by (simp add: num_mul_def finite_value_def sample_runtime_def,
        subst round_binary64_eval [where e = "0"],
        simp_all add: round_half_even_def Let_def)
  have i2: "tile_index sample_runtime (3 / 8) = Fin 2"
    by (simp add: tile_index_def m2)
  have m3: "num_mul sample_runtime (Fin (5 / 8)) (Fin 5) = Fin (25 / 8)"
    by (simp add: num_mul_def finite_value_def sample_runtime_def,
        subst round_binary64_eval [where e = "1"],
        simp_all add: round_half_even_def Let_def)
  have i3: "tile_index sample_runtime (5 / 8) = Fin 3"
    by (simp add: tile_index_def m3)
  have m4: "num_mul sample_runtime (Fin (13 / 16)) (Fin 5) = Fin (65 / 16)"
    by (simp add: num_mul_def finite_value_def sample_runtime_def,
        subst round_binary64_eval [where e = "2"],
        simp_all add: round_half_even_def Let_def)
  have i4: "tile_index sample_runtime (13 / 16) = Fin 4"
    by (simp add: tile_index_def m4)
  have m5: "num_mul sample_runtime (Fin (15 / 16)) (Fin 5) = Fin (75 / 16)"
    by (simp add: num_mul_def finite_value_def sample_runtime_def,
        subst round_binary64_eval [where e = "2"],
        simp_all add: round_half_even_def Let_def)
  have i5: "tile_index sample_runtime (15 / 16) = Fin 5"
    by (simp add: tile_index_def m5)
  have m6: "num_mul sample_runtime (Fin (1 / 2)) (Fin 5) = Fin (5 / 2)"
    by (simp add: num_mul_def finite_value_def sample_runtime_def,
        subst round_binary64_eval [where e = "1"],
        simp_all add: round_half_even_def Let_def)
  have i6: "tile_index sample_runtime (1 / 2) = Fin 3"
    by (simp add: tile_index_def m6)
  have hd: "num_div sample_runtime (Fin 372) (Fin 12) = Fin 31"
    by (simp add: num_div_def finite_value_def sample_runtime_def,
        subst round_binary64_eval [where e = "4"],
        simp_all add: round_half_even_def Let_def)
  have us: "num_sub sample_runtime (Fin 372) (Fin 65) = Fin 307"
    by (simp add: num_sub_def finite_value_def sample_runtime_def,
        subst round_binary64_eval [where e = "8"],
        simp_all add: round_half_even_def Let_def)
  have um: "num_mul sample_runtime (Fin 100) (Fin 307) = Fin 30700"
    by (simp add: num_mul_def finite_value_def sample_runtime_def,
        subst round_binary64_eval [where e = "14"],
        simp_all add: round_half_even_def Let_def)
  have ud: "num_div sample_runtime (Fin 30700) (Fin 65) = Fin (8308924793285711 / 17592186044416)"
    by (simp add: num_div_def finite_value_def sample_runtime_def,
        subst round_binary64_eval [where e = "8"],
        simp_all add: round_half_even_def Let_def)
  have ur: "Math_round (Fin (8308924793285711 / 17592186044416)) = Fin 472"
    by simp
  have vs: "num_sub sample_runtime (Fin 16000) (Fin 120) = Fin 15880"
    by (simp add: num_sub_def finite_value_def sample_runtime_def,
        subst round_binary64_eval [where e = "13"],
        simp_all add: round_half_even_def Let_def)
  have vm: "num_mul sample_runtime (Fin 100) (Fin 15880) = Fin 1588000"
    by (simp add: num_mul_def finite_value_def sample_runtime_def,
        subst round_binary64_eval [where e = "20"],
        simp_all add: round_half_even_def Let_def)
  have vd: "num_div sample_runtime (Fin 1588000) (Fin 120) = Fin (7275101937117867 / 549755813888)"
    by (simp add: num_div_def finite_value_def sample_runtime_def,
        subst round_binary64_eval [where e = "13"],
        simp_all add: round_half_even_def Let_def)
  have vr: "Math_round (Fin (7275101937117867 / 549755813888)) = Fin 13233"
    by simp
  have n: "Number_toString sample_runtime (Fin 472) = ''472''"
    "Number_toString sample_runtime (Fin 16000) = ''16000''"
    "Number_toString sample_runtime (Fin 13233) = ''13233''"
    by (simp_all add: Number_toString_def decimal.simps digit_def)
  have tf: "toFixed sample_runtime (Fin 31) 2 = ''31.00''"
    by (simp add: toFixed_2 Let_def decimal.simps digit_def)
  have grid: "binary64_grid 65" "binary64_grid 372" "binary64_grid 120" "binary64_grid 16000"
    by (simp_all add: binary64_grid_def)
  have s4: "num_less (num_sub sample_runtime (Fin 65) (Fin 372)) (Fin 0)"
    using rt grid(2,1) by (rule num_sub_negative) simp
  have s5: "num_less (num_sub sample_runtime (Fin 120) (Fin 16000)) (Fin 0)"
    using rt grid(4,3) by (rule num_sub_negative) simp
  have c3: "compareDiet anklyosaurus ann =
      ''I think you shouldn't eat meat, you know.''"
    by (simp add: compareDiet_def anklyosaurus_def pteranodon_def dino_record_def ann_def)
  have c4: "compareHeights sample_runtime brachiosaurus ann =
      ''At 31.00 feet, I am about 472% taller than you''"
    using s4 num_less_asym [OF s4]
    by (simp add: compareHeights_def brachiosaurus_def dino_record_def ann_def ToNumber_def Let_def hd tf n
        us um ud ur)
  have c5: "compareWeights sample_runtime elasmosaurus ann =
      ''At 16000 lbs, I am about 13233% heavier than you''"
    using s5 num_less_asym [OF s5]
    by (simp add: compareWeights_def elasmosaurus_def dino_record_def ann_def ToNumber_def ToString_def Let_def n
        vs vm vd vr)
  have c6: "compareDiet pteranodon ann =
      ''Why do you waste your appetite on vegetables ?''"
    by (simp add: compareDiet_def anklyosaurus_def pteranodon_def dino_record_def ann_def)
  define t0 where "t0 = tile_markup ''T-Rex'' ''T-Rex'' ''<p>Location: North America</p>''"
  define t1 where "t1 = tile_markup ''Stegosaurus'' ''Stegosaurus'' ''<p>When I lived: Late Jurassic</p>''"
  define t2 where "t2 = tile_markup ''Triceratops'' ''Triceratops'' ''<p>First discovered in 1889.</p>''"
  define t3 where "t3 = tile_markup ''Anklyosaurus'' ''Anklyosaurus'' ''<p>I think you shouldn't eat meat, you know.</p>''"
  define t4 where "t4 = tile_markup ''Ann'' ''human'' []"
  define t5 where "t5 = tile_markup ''Brachiosaurus'' ''Brachiosaurus'' ''<p>At 31.00 feet, I am about 472% taller than you</p>''"
  define t6 where "t6 = tile_markup ''Elasmosaurus'' ''Elasmosaurus'' ''<p>At 16000 lbs, I am about 13233% heavier than you</p>''"
  define t7 where "t7 = tile_markup ''Pteranodon'' ''Pteranodon'' ''<p>Why do you waste your appetite on vegetables ?</p>''"
  define t8 where "t8 = tile_markup ''Pigeon'' ''Pigeon'' ''<p>All birds are living dinosaurs.</p>''"
  have g0: "Get trex ''species'' = Str ''T-Rex''"
    "Get trex ''where'' = Str ''North America''"
    "Get trex ''when'' = Str ''Late Cretaceous''"
    by (simp_all add: trex_def dino_record_def)
  have T0: "getTileHTML sample_runtime ann [Some trex] g =
      Inr (t0, \<lambda>n. g (Suc n))" if "g 0 = 1 / 16" for g
    using getTileHTML_pick [of trex sample_runtime g 0 ann]
    by (simp add: that i0 t0_def facts_of_def g0 ToString_def ToBoolean_def)
  have g1: "Get stego ''species'' = Str ''Stegosaurus''"
    "Get stego ''where'' = Str ''North America''"
    "Get stego ''when'' = Str ''Late Jurassic''"
    by (simp_all add: stego_def dino_record_def)
  have T1: "getTileHTML sample_runtime ann [Some stego] g =
      Inr (t1, \<lambda>n. g (Suc n))" if "g 0 = 1 / 4" for g
    using getTileHTML_pick [of stego sample_runtime g 1 ann]
    by (simp add: that i1 t1_def facts_of_def g1 ToString_def ToBoolean_def)
  have g2: "Get triceratops ''species'' = Str ''Triceratops''"
    "Get triceratops ''where'' = Str ''North America''"
    "Get triceratops ''when'' = Str ''Late Cretaceous''"
    by (simp_all add: triceratops_def dino_record_def)
  have f2: "Get triceratops ''fact'' = Str ''First discovered in 1889.''"
    by (simp add: triceratops_def dino_record_def)
  have T2: "getTileHTML sample_runtime ann [Some triceratops] g =
      Inr (t2, \<lambda>n. g (Suc n))" if "g 0 = 3 / 8" for g
    using getTileHTML_pick [of triceratops sample_runtime g 2 ann]
    by (simp add: that i2 t2_def facts_of_def g2 ToString_def ToBoolean_def f2)
  have g3: "Get anklyosaurus ''species'' = Str ''Anklyosaurus''"
    "Get anklyosaurus ''where'' = Str ''North America''"
    "Get anklyosaurus ''when'' = Str ''Late Cretaceous''"
    by (simp_all add: anklyosaurus_def dino_record_def)
  have T3: "getTileHTML sample_runtime ann [Some anklyosaurus] g =
      Inr (t3, \<lambda>n. g (Suc n))" if "g 0 = 5 / 8" for g
    using getTileHTML_pick [of anklyosaurus sample_runtime g 3 ann]
    by (simp add: that i3 t3_def facts_of_def g3 ToString_def ToBoolean_def c3)
  have g5: "Get brachiosaurus ''species'' = Str ''Brachiosaurus''"
    "Get brachiosaurus ''where'' = Str ''North America''"
    "Get brachiosaurus ''when'' = Str ''Late Jurassic''"
    by (simp_all add: brachiosaurus_def dino_record_def)
  have T5: "getTileHTML sample_runtime ann [Some brachiosaurus] g =
      Inr (t5, \<lambda>n. g (Suc n))" if "g 0 = 13 / 16" for g
    using getTileHTML_pick [of brachiosaurus sample_runtime g 4 ann]
    by (simp add: that i4 t5_def facts_of_def g5 ToString_def ToBoolean_def c4)
  have g6: "Get elasmosaurus ''species'' = Str ''Elasmosaurus''"
    "Get elasmosaurus ''where'' = Str ''North America''"
    "Get elasmosaurus ''when'' = Str ''Late Cretaceous''"
    by (simp_all add: elasmosaurus_def dino_record_def)
  have T6: "getTileHTML sample_runtime ann [Some elasmosaurus] g =
      Inr (t6, \<lambda>n. g (Suc n))" if "g 0 = 15 / 16" for g
    using getTileHTML_pick [of elasmosaurus sample_runtime g 5 ann]
    by (simp add: that i5 t6_def facts_of_def g6 ToString_def ToBoolean_def c5)
  have g7: "Get pteranodon ''species'' = Str ''Pteranodon''"
    "Get pteranodon ''where'' = Str ''North America''"
    "Get pteranodon ''when'' = Str ''Late Cretaceous''"
    by (simp_all add: pteranodon_def dino_record_def)
  have T7: "getTileHTML sample_runtime ann [Some pteranodon] g =
      Inr (t7, \<lambda>n. g (Suc n))" if "g 0 = 1 / 2" for g
    using getTileHTML_pick [of pteranodon sample_runtime g 3 ann]
    by (simp add: that i6 t7_def facts_of_def g7 ToString_def ToBoolean_def c6)
  have T4: "getTileHTML sample_runtime ann [] g = Inr (t4, g)" for g
    by (simp add: getTileHTML_human generateTileHTML_human_markup t4_def ann_def ToString_def)
  have T8: "getTileHTML sample_runtime ann [Some pigeon] g = Inr (t8, g)" for g
    by (simp add: getTileHTML_Pigeon generateTileHTML_markup t8_def pigeon_def dino_record_def
        ToString_def ToBoolean_def)
  have run: "\<exists>g. addTiles sample_runtime sample_data ann blank_page =
      (None, \<lparr>innerHTML = concat [t0, t1, t2, t3, t4, t5, t6, t7, t8], random = g\<rparr>)"
    by (simp add: addTiles_def add_dino_tiles.simps dinos_at_def sample_data_def blank_page_def
        T0 T1 T2 T3 T4 T5 T6 T7 T8)
  then obtain g where "addTiles sample_runtime sample_data ann blank_page =
      (None, \<lparr>innerHTML = concat [t0, t1, t2, t3, t4, t5, t6, t7, t8], random = g\<rparr>)" ..
  then have r: "fst (addTiles sample_runtime sample_data ann blank_page) = None"
    "innerHTML (snd (addTiles sample_runtime sample_data ann blank_page)) =
       concat [t0, t1, t2, t3, t4, t5, t6, t7, t8]"
    by simp_all
  show ?thesis
    by (intro conjI)
      (rule l u rt r(1) r(2) [unfolded t0_def t1_def t2_def t3_def t4_def t5_def t6_def t7_def
          t8_def] addTiles_nine_tiles [OF l u rt])+
qed

section \<open>The choice of the fact\<close>

lemma fact_index_eq:
  assumes "0 \<le> u"
  shows "fact_index u = Fin (of_int k) \<longleftrightarrow>
    of_int k - 1 / 2 \<le> u * 5 \<and> u * 5 < of_int k + 1 / 2"
proof -
  have "num_mul real_arithmetic (Fin u) (Fin 5) = Fin (u * 5)"
    by (simp add: num_mul_draw real_arithmetic_def)
  moreover have "\<not> u * 5 < 0" using assms by simp
  ultimately have "fact_index u = Fin (of_int k) \<longleftrightarrow> \<lfloor>u * 5 + 1 / 2\<rfloor> = k"
    by (simp add: fact_index_def tile_index_def)
  also have "\<dots> \<longleftrightarrow> of_int k \<le> u * 5 + 1 / 2 \<and> u * 5 + 1 / 2 < of_int k + 1"
    by (rule floor_eq_iff)
  also have "\<dots> \<longleftrightarrow> of_int k - 1 / 2 \<le> u * 5 \<and> u * 5 < of_int k + 1 / 2"
    by linarith
  finally show ?thesis .
qed

text \<open>
  C1. The index of the fact is \<open>Math.round(u * 5)\<close> for the draw \<open>u\<close>. The draws
  in \<open>[0, 1)\<close> that give each index form an interval: of length one tenth for the
  indices 0 and 5, and of length one fifth for the indices 1 to 4. A uniform draw
  therefore picks the first and the last fact half as often as any of the other four,
  not each with probability one sixth.
\<close>

theorem fact_index_distribution:
  "{u. 0 \<le> u \<and> u < 1 \<and> fact_index u = Fin 0} = {0 ..< 1 / 10} \<and>
   {u. 0 \<le> u \<and> u < 1 \<and> fact_index u = Fin 1} = {1 / 10 ..< 3 / 10} \<and>
   {u. 0 \<le> u \<and> u < 1 \<and> fact_index u = Fin 2} = {3 / 10 ..< 5 / 10} \<and>
   {u. 0 \<le> u \<and> u < 1 \<and> fact_index u = Fin 3} = {5 / 10 ..< 7 / 10} \<and>
   {u. 0 \<le> u \<and> u < 1 \<and> fact_index u = Fin 4} = {7 / 10 ..< 9 / 10} \<and>
   {u. 0 \<le> u \<and> u < 1 \<and> fact_index u = Fin 5} = {9 / 10 ..< 1}"
  using fact_index_eq [of _ 0] fact_index_eq [of _ 1] fact_index_eq [of _ 2]
    fact_index_eq [of _ 3] fact_index_eq [of _ 4] fact_index_eq [of _ 5]
  by (auto simp: set_eq_iff)

theorem fact_index_distribution_witness:
  "fact_index (1 / 20) = Fin 0 \<and> fact_index (1 / 8) = Fin 1 \<and> fact_index (4 / 10) = Fin 2 \<and>
   fact_index (19 / 20) = Fin 5 \<and> 1 / 8 \<notin> {u. 0 \<le> u \<and> u < 1 \<and> fact_index u = Fin 0}"
proof -
  have "(1 / 20 :: rat) \<in> {0 ..< 1 / 10}" "(1 / 8 :: rat) \<in> {1 / 10 ..< 3 / 10}"
    "(4 / 10 :: rat) \<in> {3 / 10 ..< 5 / 10}" "(19 / 20 :: rat) \<in> {9 / 10 ..< 1}"
    "(1 / 8 :: rat) \<notin> {0 ..< 1 / 10}"
    by simp_all
  then show ?thesis
    unfolding fact_index_distribution [THEN conjunct1, symmetric]
      fact_index_distribution [THEN conjunct2, THEN conjunct1, symmetric]
      fact_index_distribution [THEN conjunct2, THEN conjunct2, THEN conjunct1, symmetric]
      fact_index_distribution [THEN conjunct2, THEN conjunct2, THEN conjunct2, THEN conjunct2,
        THEN conjunct2, symmetric]
    by simp
qed

end
